theory Spec2Isabelle
  imports Main "HOL-Library.Sublist"
begin

section \<open>Strings and POSIX paths\<close>

text \<open>
  JavaScript strings are modelled as \<open>string\<close> (a list of 8-bit characters), so the model
  covers ASCII file names, MIME types and paths. \<open>toLowerCase\<close> maps \<open>A\<close>..\<open>Z\<close> to
  \<open>a\<close>..\<open>z\<close> and leaves every other character alone.
\<close>

definition lower_char :: "char \<Rightarrow> char" where
  "lower_char c =
     (let n = (of_char c :: nat) in if 65 \<le> n \<and> n \<le> 90 then char_of (n + 32) else c)"

definition toLowerCase :: "string \<Rightarrow> string" where
  "toLowerCase s = map lower_char s"

text \<open>
  \<open>s.match(/\.[^.]+$/)?.[0]\<close>: the suffix of \<open>s\<close> that starts at its last dot, when
  \<open>s\<close> has a dot and does not end with one; no match otherwise.
\<close>

definition match_ext :: "string \<Rightarrow> string option" where
  "match_ext s =
     (let r = takeWhile (\<lambda>c. c \<noteq> CHR ''.'') (rev s)
      in if r = [] \<or> length r = length s then None else Some (CHR ''.'' # rev r))"

text \<open>\<open>getFileExtension\<close> of file.util.ts: the match, or the empty string.\<close>

definition getFileExtension :: "string \<Rightarrow> string" where
  "getFileExtension filename = (case match_ext filename of None \<Rightarrow> [] | Some e \<Rightarrow> e)"

text \<open>
  The functions of Node's \<open>path\<close> module (POSIX flavour) that the repository calls.
  A path is split at \<open>/\<close>; \<open>normalize_segs\<close> is the segment walk of Node's
  \<open>normalizeString\<close>: empty and \<open>.\<close> segments are dropped, \<open>..\<close> removes the
  segment before it, and above the start it is kept only when \<open>allowAboveRoot\<close>.
  The accumulator holds the segments kept so far, last one first.
\<close>

fun split_sep :: "string \<Rightarrow> string list" where
  "split_sep [] = [[]]"
| "split_sep (c # cs) =
     (if c = CHR ''/'' then [] # split_sep cs
      else (case split_sep cs of [] \<Rightarrow> [[c]] | x # xs \<Rightarrow> (c # x) # xs))"

fun join_sep :: "string list \<Rightarrow> string" where
  "join_sep [] = []"
| "join_sep [x] = x"
| "join_sep (x # y # ys) = x @ CHR ''/'' # join_sep (y # ys)"

fun normalize_segs :: "bool \<Rightarrow> string list \<Rightarrow> string list \<Rightarrow> string list" where
  "normalize_segs allowAboveRoot acc [] = rev acc"
| "normalize_segs allowAboveRoot acc (s # ss) =
     (if s = [] \<or> s = ''.'' then normalize_segs allowAboveRoot acc ss
      else if s = ''..'' then
        (case acc of
           [] \<Rightarrow> normalize_segs allowAboveRoot (if allowAboveRoot then [''..''] else []) ss
         | t # ts \<Rightarrow>
             if t = ''..''
             then normalize_segs allowAboveRoot (if allowAboveRoot then ''..'' # acc else acc) ss
             else normalize_segs allowAboveRoot ts ss)
      else normalize_segs allowAboveRoot (s # acc) ss)"

definition normalizeString :: "string \<Rightarrow> bool \<Rightarrow> string" where
  "normalizeString p allowAboveRoot = join_sep (normalize_segs allowAboveRoot [] (split_sep p))"

definition isAbsolute :: "string \<Rightarrow> bool" where
  "isAbsolute p = (case p of [] \<Rightarrow> False | c # _ \<Rightarrow> c = CHR ''/'')"

definition path_normalize :: "string \<Rightarrow> string" where
  "path_normalize p =
     (if p = [] then ''.''
      else
        let trailing = (last p = CHR ''/'');
            q = normalizeString p (\<not> isAbsolute p)
        in if q = [] then (if isAbsolute p then ''/'' else if trailing then ''./'' else ''.'')
           else (if isAbsolute p then ''/'' else []) @ q @ (if trailing then ''/'' else []))"

text \<open>
  \<open>path.resolve(...args)\<close>: the arguments are taken from the right until one is
  absolute; the working directory \<open>cwd\<close> (an absolute path, a parameter here) is used
  when none is. Empty arguments are skipped.
\<close>

fun resolve_args :: "string list \<Rightarrow> string \<times> bool" where
  "resolve_args [] = ([], False)"
| "resolve_args (a # as) =
     (case resolve_args as of
        (r, True) \<Rightarrow> (r, True)
      | (r, False) \<Rightarrow> if a = [] then (r, False) else (a @ CHR ''/'' # r, isAbsolute a))"

definition path_resolve :: "string \<Rightarrow> string list \<Rightarrow> string" where
  "path_resolve cwd args =
     (let (r, absolute) = resolve_args (cwd # args);
          q = normalizeString r (\<not> absolute)
      in if absolute then CHR ''/'' # q else if q = [] then ''.'' else q)"

definition path_join :: "string list \<Rightarrow> string" where
  "path_join args =
     (let parts = filter (\<lambda>a. a \<noteq> []) args
      in if parts = [] then ''.'' else path_normalize (join_sep parts))"

definition path_basename :: "string \<Rightarrow> string" where
  "path_basename p =
     (case filter (\<lambda>s. s \<noteq> []) (split_sep p) of [] \<Rightarrow> [] | x # xs \<Rightarrow> last (x # xs))"

text \<open>
  \<open>path.parse(p).name\<close>: the base name without its extension. The extension starts at
  the last dot of the base name, unless there is no dot, the dot is the first character,
  or the base name is \<open>..\<close>.
\<close>

definition path_parse_name :: "string \<Rightarrow> string" where
  "path_parse_name p =
     (let base = path_basename p;
          after = takeWhile (\<lambda>c. c \<noteq> CHR ''.'') (rev base);
          startDot = length base - length after - 1
      in if length after = length base \<or> startDot = 0 \<or> base = ''..'' then base
         else take startDot base)"

fun relative_segs :: "string list \<Rightarrow> string list \<Rightarrow> string list" where
  "relative_segs [] bs = bs"
| "relative_segs (a # as) [] = replicate (length (a # as)) ''..''"
| "relative_segs (a # as) (b # bs) =
     (if a = b then relative_segs as bs
      else replicate (length (a # as)) ''..'' @ (b # bs))"

definition path_segments :: "string \<Rightarrow> string list" where
  "path_segments p = filter (\<lambda>s. s \<noteq> []) (split_sep p)"

definition path_relative :: "string \<Rightarrow> string \<Rightarrow> string \<Rightarrow> string" where
  "path_relative cwd from_dir to_path =
     join_sep (relative_segs (path_segments (path_resolve cwd [from_dir]))
                             (path_segments (path_resolve cwd [to_path])))"

subsection \<open>path.util.ts\<close>

text \<open>\<open>validatePath\<close>: \<open>absolute.startsWith(baseAbsolute)\<close>, a comparison of strings.\<close>

definition validatePath :: "string \<Rightarrow> string \<Rightarrow> string \<Rightarrow> bool" where
  "validatePath cwd filepath baseDir =
     (let normalized = path_normalize filepath;
          absolute = path_resolve cwd [baseDir, normalized];
          baseAbsolute = path_resolve cwd [baseDir]
      in prefix baseAbsolute absolute)"

text \<open>
  What the documentation of \<open>validatePath\<close> promises (\<open>a file path is within the allowed
  base directory\<close>): the resolved path is the resolved base directory or lies below it,
  that is, the segments of the base are the leading segments of the path.
\<close>

definition inside_dir :: "string \<Rightarrow> string \<Rightarrow> string \<Rightarrow> bool" where
  "inside_dir cwd filepath baseDir =
     prefix (path_segments (path_resolve cwd [baseDir]))
            (path_segments (path_resolve cwd [baseDir, path_normalize filepath]))"

section \<open>Categories (file-categories.config.ts)\<close>

datatype FileCategory = Cat_image | Cat_video | Cat_document | Cat_audio | Cat_archive | Cat_other

record CategoryConfig =
  extensions :: "string list"
  mimeTypes :: "string list"
  maxSize :: int
  allowOptimization :: bool

definition image_config :: CategoryConfig where
  "image_config =
     \<lparr>extensions = [''.jpg'', ''.jpeg'', ''.png'', ''.gif'', ''.webp'', ''.svg'', ''.bmp'', ''.ico''],
      mimeTypes = [''image/jpeg'', ''image/png'', ''image/gif'', ''image/webp'',
                   ''image/svg+xml'', ''image/bmp'', ''image/x-icon''],
      maxSize = 10 * 1024 * 1024, allowOptimization = True\<rparr>"

definition video_config :: CategoryConfig where
  "video_config =
     \<lparr>extensions = [''.mp4'', ''.webm'', ''.mov'', ''.avi'', ''.mkv'', ''.flv'', ''.wmv''],
      mimeTypes = [''video/mp4'', ''video/webm'', ''video/quicktime'', ''video/x-msvideo'',
                   ''video/x-matroska'', ''video/x-flv'', ''video/x-ms-wmv''],
      maxSize = 500 * 1024 * 1024, allowOptimization = True\<rparr>"

definition document_config :: CategoryConfig where
  "document_config =
     \<lparr>extensions = [''.pdf'', ''.doc'', ''.docx'', ''.xls'', ''.xlsx'', ''.ppt'', ''.pptx'',
                     ''.txt'', ''.csv''],
      mimeTypes = [''application/pdf'', ''application/msword'',
                   ''application/vnd.openxmlformats-officedocument.wordprocessingml.document'',
                   ''application/vnd.ms-excel'',
                   ''application/vnd.openxmlformats-officedocument.spreadsheetml.sheet'',
                   ''application/vnd.ms-powerpoint'',
                   ''application/vnd.openxmlformats-officedocument.presentationml.presentation'',
                   ''text/plain'', ''text/csv''],
      maxSize = 20 * 1024 * 1024, allowOptimization = False\<rparr>"

definition audio_config :: CategoryConfig where
  "audio_config =
     \<lparr>extensions = [''.mp3'', ''.wav'', ''.ogg'', ''.m4a'', ''.flac'', ''.aac'', ''.wma''],
      mimeTypes = [''audio/mpeg'', ''audio/wav'', ''audio/ogg'', ''audio/mp4'', ''audio/flac'',
                   ''audio/aac'', ''audio/x-ms-wma''],
      maxSize = 50 * 1024 * 1024, allowOptimization = False\<rparr>"

definition archive_config :: CategoryConfig where
  "archive_config =
     \<lparr>extensions = [''.zip'', ''.tar'', ''.gz'', ''.7z'', ''.rar'', ''.bz2''],
      mimeTypes = [''application/zip'', ''application/x-tar'', ''application/gzip'',
                   ''application/x-7z-compressed'', ''application/x-rar-compressed'',
                   ''application/x-bzip2''],
      maxSize = 100 * 1024 * 1024, allowOptimization = False\<rparr>"

definition other_config :: CategoryConfig where
  "other_config =
     \<lparr>extensions = [], mimeTypes = [], maxSize = 10 * 1024 * 1024, allowOptimization = False\<rparr>"

fun FILE_CATEGORIES :: "FileCategory \<Rightarrow> CategoryConfig" where
  "FILE_CATEGORIES Cat_image = image_config"
| "FILE_CATEGORIES Cat_video = video_config"
| "FILE_CATEGORIES Cat_document = document_config"
| "FILE_CATEGORIES Cat_audio = audio_config"
| "FILE_CATEGORIES Cat_archive = archive_config"
| "FILE_CATEGORIES Cat_other = other_config"

text \<open>The key of a category in \<open>FILE_CATEGORIES\<close>, as it appears in paths and messages.\<close>

definition category_name :: "FileCategory \<Rightarrow> string" where
  "category_name c =
     (case c of Cat_image \<Rightarrow> ''image'' | Cat_video \<Rightarrow> ''video'' | Cat_document \<Rightarrow> ''document''
      | Cat_audio \<Rightarrow> ''audio'' | Cat_archive \<Rightarrow> ''archive'' | Cat_other \<Rightarrow> ''other'')"

text \<open>\<open>Object.entries(FILE_CATEGORIES)\<close> visits the categories in the order they are written.\<close>

definition category_order :: "FileCategory list" where
  "category_order = [Cat_image, Cat_video, Cat_document, Cat_audio, Cat_archive, Cat_other]"

definition detectCategoryFromExtension :: "string \<Rightarrow> FileCategory" where
  "detectCategoryFromExtension filename =
     (case match_ext (toLowerCase filename) of
        None \<Rightarrow> Cat_other
      | Some ext \<Rightarrow>
          (case find (\<lambda>c. ext \<in> set (extensions (FILE_CATEGORIES c))) category_order of
             None \<Rightarrow> Cat_other | Some c \<Rightarrow> c))"

text \<open>
  A configured MIME type matches when it equals the declared one in lower case, or when it
  holds a \<open>*\<close> and the declared type starts with the part before the first \<open>*\<close>.
\<close>

definition mime_matches :: "string \<Rightarrow> string \<Rightarrow> bool" where
  "mime_matches normalizedMime mime =
     (normalizedMime = toLowerCase mime \<or>
      (CHR ''*'' \<in> set mime \<and> prefix (takeWhile (\<lambda>c. c \<noteq> CHR ''*'') mime) normalizedMime))"

definition detectCategoryFromMimeType :: "string \<Rightarrow> FileCategory" where
  "detectCategoryFromMimeType mimeType =
     (case find (\<lambda>c. \<exists>m \<in> set (mimeTypes (FILE_CATEGORIES c)). mime_matches (toLowerCase mimeType) m)
             category_order of
        None \<Rightarrow> Cat_other | Some c \<Rightarrow> c)"

definition isAllowedExtension :: "string \<Rightarrow> FileCategory \<Rightarrow> bool" where
  "isAllowedExtension filename category =
     (case match_ext (toLowerCase filename) of
        None \<Rightarrow> False
      | Some ext \<Rightarrow> ext \<in> set (extensions (FILE_CATEGORIES category)))"

definition isAllowedMimeType :: "string \<Rightarrow> FileCategory \<Rightarrow> bool" where
  "isAllowedMimeType mimeType category =
     (\<exists>allowed \<in> set (mimeTypes (FILE_CATEGORIES category)).
        toLowerCase mimeType = toLowerCase allowed)"

definition getMaxSize :: "FileCategory \<Rightarrow> int" where
  "getMaxSize category = maxSize (FILE_CATEGORIES category)"

definition isOptimizable :: "FileCategory \<Rightarrow> bool" where
  "isOptimizable category = allowOptimization (FILE_CATEGORIES category)"

section \<open>Errors and configuration\<close>

text \<open>
  The reasons \<open>ValidationService\<close> puts into its \<open>errors\<close> list. Each constructor stands
  for one message template of the source and keeps the values the template interpolates
  (the rendering of sizes in megabytes is not modelled).
\<close>

datatype validation_error =
    File_does_not_exist
  | Extension_not_allowed string FileCategory
  | Mime_not_allowed string FileCategory
  | Mime_mismatch string "string option"
  | Size_exceeded int int FileCategory
  | Could_not_check_size string
  | Security_failed string
  | Image_corrupted
  | Image_validation_failed string
  | Validation_error string

text \<open>
  A thrown \<open>CDNError(errorCode, statusCode, additionalMessage)\<close> carries the key of its
  error code, the HTTP status and the additional message, which for a failed validation is
  the list of reasons. Every other exception is an \<open>Error\<close> with its message.
\<close>

datatype detail = No_detail | Detail string | Detail_errors "validation_error list"

datatype error = CDNError string nat detail | Error string

definition message_of :: "error \<Rightarrow> string" where
  "message_of e =
     (case e of
        Error m \<Rightarrow> m
      | CDNError code st No_detail \<Rightarrow> code
      | CDNError code st (Detail d) \<Rightarrow> code @ '': '' @ d
      | CDNError code st (Detail_errors es) \<Rightarrow> code @ '': validation errors'')"

text \<open>The part of \<open>fastify.config\<close> the services read; \<open>default_config\<close> holds the schema's defaults.\<close>

record config =
  UPLOAD_DIR :: string
  TOKEN_DEFAULT_EXPIRY :: int
  TOKEN_LENGTH :: nat
  ENABLE_MALWARE_SCAN :: bool
  ENABLE_MIME_VERIFICATION :: bool

definition default_config :: config where
  "default_config =
     \<lparr>UPLOAD_DIR = ''./uploads'', TOKEN_DEFAULT_EXPIRY = 3600, TOKEN_LENGTH = 32,
      ENABLE_MALWARE_SCAN = True, ENABLE_MIME_VERIFICATION = True\<rparr>"

section \<open>Tokens (token.model.ts, token.repository.ts, token.service.ts)\<close>

text \<open>
  A \<open>Date\<close> is its number of milliseconds since the epoch. JavaScript numbers that hold sizes
  and times are integers here; use counts (\<open>INT UNSIGNED\<close> columns) are naturals.
\<close>

datatype TokenCategory = Category FileCategory | Any_category

datatype TokenStatus = Success | Failed | Rejected

record UploadTokenModel =
  tok_id :: nat
  token :: string
  allowed_category :: TokenCategory
  max_file_size :: "int option"
  max_uses :: nat
  current_uses :: nat
  created_by :: "string option"
  metadata :: "string option"
  is_active :: bool
  is_used :: bool
  expires_at :: "int option"
  created_at :: int
  used_at :: "int option"

record CreateTokenInput =
  in_token :: string
  in_allowed_category :: "TokenCategory option"
  in_max_file_size :: "int option"
  in_max_uses :: "nat option"
  in_created_by :: "string option"
  in_metadata :: "string option"
  in_expires_at :: "int option"

record TokenValidationResult =
  tv_valid :: bool
  reason :: "string option"
  tv_token :: "UploadTokenModel option"

record CreateTokenUsageLog =
  log_token_id :: nat
  log_file_id :: "string option"
  ip_address :: "string option"
  user_agent :: "string option"
  status :: TokenStatus
  error_message :: "string option"

text \<open>
  The two tables of migration 002, each with its rows in insertion order. The
  \<open>AUTO_INCREMENT\<close> primary key of a new token is an id above every stored one.
\<close>

record token_db =
  upload_tokens :: "UploadTokenModel list"
  token_usage_log :: "CreateTokenUsageLog list"

definition insertId :: "UploadTokenModel list \<Rightarrow> nat" where
  "insertId rows = Suc (foldr (\<lambda>r m. max (tok_id r) m) rows 0)"

text \<open>\<open>a || b\<close> on an optional number: \<open>undefined\<close>, \<open>null\<close> and \<open>0\<close> are falsy.\<close>

definition truthy_int :: "int option \<Rightarrow> bool" where
  "truthy_int x = (case x of None \<Rightarrow> False | Some n \<Rightarrow> n \<noteq> 0)"

definition truthy_nat :: "nat option \<Rightarrow> bool" where
  "truthy_nat x = (case x of None \<Rightarrow> False | Some n \<Rightarrow> n \<noteq> 0)"

definition truthy_str :: "string option \<Rightarrow> bool" where
  "truthy_str x = (case x of None \<Rightarrow> False | Some s \<Rightarrow> s \<noteq> [])"

definition findById :: "token_db \<Rightarrow> nat \<Rightarrow> UploadTokenModel option" where
  "findById db i = find (\<lambda>r. tok_id r = i) (upload_tokens db)"

definition findByToken :: "token_db \<Rightarrow> string \<Rightarrow> UploadTokenModel option" where
  "findByToken db t = find (\<lambda>r. token r = t) (upload_tokens db)"

text \<open>
  \<open>TokenRepository.create\<close>: the \<open>INSERT\<close> fails when the statement cannot run
  (\<open>db_fails\<close>) or the \<open>UNIQUE\<close> token is already stored; the columns that the statement
  does not name take the defaults of the migration. The new row is then read back by id.
\<close>

definition token_create ::
  "bool \<Rightarrow> int \<Rightarrow> CreateTokenInput \<Rightarrow> token_db \<Rightarrow> (error + UploadTokenModel) \<times> token_db" where
  "token_create db_fails now input db =
     (if db_fails then (Inl (Error ''ER_QUERY''), db)
      else if \<exists>r \<in> set (upload_tokens db). token r = in_token input
      then (Inl (Error ''ER_DUP_ENTRY''), db)
      else
        let row = \<lparr>tok_id = insertId (upload_tokens db),
                   token = in_token input,
                   allowed_category =
                     (case in_allowed_category input of None \<Rightarrow> Any_category | Some c \<Rightarrow> c),
                   max_file_size =
                     (if truthy_int (in_max_file_size input) then in_max_file_size input else None),
                   max_uses = (if truthy_nat (in_max_uses input) then the (in_max_uses input) else 1),
                   current_uses = 0,
                   created_by =
                     (if truthy_str (in_created_by input) then in_created_by input else None),
                   metadata = in_metadata input,
                   is_active = True,
                   is_used = False,
                   expires_at = in_expires_at input,
                   created_at = now,
                   used_at = None\<rparr>;
            db' = db\<lparr>upload_tokens := upload_tokens db @ [row]\<rparr>
        in (case findById db' (insertId (upload_tokens db)) of
              None \<Rightarrow> (Inl (Error ''Failed to create token''), db')
            | Some created \<Rightarrow> (Inr created, db')))"

text \<open>\<open>TokenRepository.validateToken\<close>, with the time of the call as \<open>now\<close>.\<close>

definition validateToken :: "int \<Rightarrow> token_db \<Rightarrow> string \<Rightarrow> TokenValidationResult" where
  "validateToken now db t =
     (case findByToken db t of
        None \<Rightarrow> \<lparr>tv_valid = False, reason = Some ''Token not found'', tv_token = None\<rparr>
      | Some tokenData \<Rightarrow>
          if \<not> is_active tokenData
          then \<lparr>tv_valid = False, reason = Some ''Token is not active'', tv_token = Some tokenData\<rparr>
          else if current_uses tokenData \<ge> max_uses tokenData
          then \<lparr>tv_valid = False, reason = Some ''Token has reached maximum usage limit'',
                tv_token = Some tokenData\<rparr>
          else if is_used tokenData \<and> max_uses tokenData = 1
          then \<lparr>tv_valid = False, reason = Some ''Token has already been used'',
                tv_token = Some tokenData\<rparr>
          else if (case expires_at tokenData of None \<Rightarrow> False | Some e \<Rightarrow> e < now)
          then \<lparr>tv_valid = False, reason = Some ''Token has expired'', tv_token = Some tokenData\<rparr>
          else \<lparr>tv_valid = True, reason = None, tv_token = Some tokenData\<rparr>)"

text \<open>\<open>TokenRepository.markAsUsed\<close>: one unconditional \<open>UPDATE ... WHERE id = ?\<close>.\<close>

definition markAsUsed :: "int \<Rightarrow> nat \<Rightarrow> token_db \<Rightarrow> token_db" where
  "markAsUsed now i db =
     db\<lparr>upload_tokens :=
          map (\<lambda>r. if tok_id r = i
                    then r\<lparr>is_used := True, used_at := Some now, current_uses := current_uses r + 1\<rparr>
                    else r)
              (upload_tokens db)\<rparr>"

definition logUsage :: "CreateTokenUsageLog \<Rightarrow> token_db \<Rightarrow> token_db" where
  "logUsage entry db =
     db\<lparr>token_usage_log :=
          token_usage_log db @
            [entry\<lparr>log_file_id := (if truthy_str (log_file_id entry) then log_file_id entry else None),
                   ip_address := (if truthy_str (ip_address entry) then ip_address entry else None),
                   user_agent := (if truthy_str (user_agent entry) then user_agent entry else None),
                   error_message :=
                     (if truthy_str (error_message entry) then error_message entry else None)\<rparr>]\<rparr>"

subsection \<open>TokenService\<close>

record GenerateTokenOptions =
  opt_category :: "TokenCategory option"
  maxFileSize :: "int option"
  expiresIn :: "int option"
  createdBy :: "string option"
  opt_metadata :: "string option"
  maxUses :: "nat option"

record TokenGenerationResult =
  res_token :: string
  expiresAt :: "int option"
  res_category :: TokenCategory
  res_maxFileSize :: "int option"
  res_maxUses :: nat

text \<open>
  \<open>TokenService.generateToken\<close>. \<open>secret\<close> is what \<open>generateSecureToken\<close> returned
  (random bytes in hexadecimal) and \<open>now\<close> is \<open>Date.now()\<close>.
\<close>

definition generateToken ::
  "config \<Rightarrow> bool \<Rightarrow> int \<Rightarrow> string \<Rightarrow> GenerateTokenOptions \<Rightarrow> token_db
     \<Rightarrow> (error + TokenGenerationResult) \<times> token_db" where
  "generateToken cfg db_fails now secret options db =
     (let expiresIn' =
            (if truthy_int (expiresIn options) then the (expiresIn options)
             else TOKEN_DEFAULT_EXPIRY cfg);
          expiresAt' = now + expiresIn' * 1000;
          tokenInput =
            \<lparr>in_token = secret,
             in_allowed_category =
               Some (case opt_category options of None \<Rightarrow> Any_category | Some c \<Rightarrow> c),
             in_max_file_size = maxFileSize options,
             in_max_uses = Some (if truthy_nat (maxUses options) then the (maxUses options) else 1),
             in_created_by = createdBy options,
             in_metadata = opt_metadata options,
             in_expires_at = Some expiresAt'\<rparr>
      in (case token_create db_fails now tokenInput db of
            (Inl e, db') \<Rightarrow> (Inl e, db')
          | (Inr createdToken, db') \<Rightarrow>
              (Inr \<lparr>res_token = token createdToken,
                    expiresAt = expires_at createdToken,
                    res_category = allowed_category createdToken,
                    res_maxFileSize = max_file_size createdToken,
                    res_maxUses = max_uses createdToken\<rparr>, db')))"

section \<open>The environment of the services\<close>

text \<open>
  What the services take from outside the repository, as parameters: the working directory
  of the process, the configuration, SHA-256, the magic-byte detection of the
  \<open>file-type\<close> package, and the two operations of \<open>MalwareService\<close> (whose source is not
  part of the repository's files here). An operation that can throw returns \<open>Inl\<close>.
  The file system is a map from paths to file contents.
\<close>

record MalwareScanResult =
  safe :: bool
  details :: string

record env =
  cwd :: string
  cfg :: config
  sha256 :: "string \<Rightarrow> string"
  fileTypeFromBuffer :: "string \<Rightarrow> string option"
  scanFile :: "string \<Rightarrow> string \<Rightarrow> FileCategory \<Rightarrow> error + MalwareScanResult"
  imageIntegrity :: "string \<Rightarrow> string \<Rightarrow> error + bool"

type_synonym disk = "string \<Rightarrow> string option"

section \<open>Validation (validation.service.ts, file.util.ts)\<close>

record ValidationOptions =
  enableMalwareScan :: "bool option"
  enableMimeVerification :: "bool option"
  opt_cat :: "FileCategory option"

text \<open>The checks of \<open>validateFile\<close>; \<open>checks_run\<close> of its result lists the ones it ran, in order.\<close>

datatype check =
  Check_exists | Check_extension | Check_mime | Check_size | Check_malware | Check_image

record ValidationResult =
  valid :: bool
  errors :: "validation_error list"
  warnings :: "string list"
  vr_category :: "FileCategory option"
  vr_mimeType :: "string option"
  vr_fileSize :: "int option"
  malwareScan :: "MalwareScanResult option"
  checks_run :: "check list"

definition validateExtension :: "string \<Rightarrow> FileCategory \<Rightarrow> validation_error option" where
  "validateExtension filePath category =
     (let filename = path_basename filePath
      in if \<not> isAllowedExtension filename category
         then Some (Extension_not_allowed (getFileExtension filename) category)
         else None)"

text \<open>\<open>detectMimeFromBuffer\<close>: \<open>detected?.mime || null\<close>, an empty type counts as none.\<close>

definition detectMimeFromBuffer :: "env \<Rightarrow> string \<Rightarrow> string option" where
  "detectMimeFromBuffer e buffer =
     (case fileTypeFromBuffer e buffer of
        None \<Rightarrow> None
      | Some m \<Rightarrow> if m = [] then None else Some m)"

definition verifyMimeType :: "env \<Rightarrow> string \<Rightarrow> string \<Rightarrow> bool" where
  "verifyMimeType e buffer declaredMime =
     (case detectMimeFromBuffer e buffer of
        None \<Rightarrow> prefix ''text/'' declaredMime \<or> declaredMime = ''application/json''
                 \<or> declaredMime = ''application/xml''
      | Some detectedMime \<Rightarrow> detectedMime = declaredMime)"

text \<open>\<open>readFileChunk\<close>: a zeroed buffer of \<open>chunkSize\<close> bytes, filled from the start of the file.\<close>

definition readFileChunk :: "string \<Rightarrow> nat \<Rightarrow> string" where
  "readFileChunk content chunkSize =
     take chunkSize content @ replicate (chunkSize - length content) (char_of (0::nat))"

record MimeCheck =
  mime_error :: "validation_error option"
  mime_warning :: "string option"
  detectedMime :: "string option"

definition validateMimeType ::
  "env \<Rightarrow> disk \<Rightarrow> string \<Rightarrow> FileCategory \<Rightarrow> string \<Rightarrow> bool option \<Rightarrow> MimeCheck" where
  "validateMimeType e d filePath category declaredMime enableVerification =
     (if \<not> isAllowedMimeType declaredMime category
      then \<lparr>mime_error = Some (Mime_not_allowed declaredMime category), mime_warning = None,
            detectedMime = None\<rparr>
      else if enableVerification = Some False
      then \<lparr>mime_error = None, mime_warning = None, detectedMime = Some declaredMime\<rparr>
      else
        (case d filePath of
           None \<Rightarrow> \<lparr>mime_error = None, mime_warning = Some ''Could not verify MIME type'',
                     detectedMime = Some declaredMime\<rparr>
         | Some content \<Rightarrow>
             let buffer = readFileChunk content 4096
             in if \<not> verifyMimeType e buffer declaredMime
                then \<lparr>mime_error = Some (Mime_mismatch declaredMime (detectMimeFromBuffer e buffer)),
                      mime_warning = None, detectedMime = detectMimeFromBuffer e buffer\<rparr>
                else \<lparr>mime_error = None, mime_warning = None, detectedMime = Some declaredMime\<rparr>))"

definition validateFileSize :: "disk \<Rightarrow> string \<Rightarrow> FileCategory \<Rightarrow> validation_error option" where
  "validateFileSize d filePath category =
     (case d filePath of
        None \<Rightarrow> Some (Could_not_check_size ''ENOENT'')
      | Some content \<Rightarrow>
          let size = int (length content);
              maxSize' = maxSize (FILE_CATEGORIES category)
          in if size > maxSize' then Some (Size_exceeded size maxSize' category) else None)"

definition validateImageIntegrity :: "env \<Rightarrow> string \<Rightarrow> string \<Rightarrow> validation_error option" where
  "validateImageIntegrity e filePath content =
     (case imageIntegrity e filePath content of
        Inl err \<Rightarrow> Some (Image_validation_failed (message_of err))
      | Inr isValid \<Rightarrow> if \<not> isValid then Some Image_corrupted else None)"

definition opt_list :: "'a option \<Rightarrow> 'a list" where
  "opt_list x = (case x of None \<Rightarrow> [] | Some a \<Rightarrow> [a])"

text \<open>
  \<open>validateFile\<close>. The source pushes onto \<open>errors\<close> as it goes; \<open>errors1\<close> to
  \<open>errors5\<close> are the list after each check. A throwing malware scan leaves the \<open>try\<close>
  block: the \<open>catch\<close> adds a \<open>Validation error\<close> to the reasons collected so far.
\<close>

definition validateFile ::
  "env \<Rightarrow> disk \<Rightarrow> string \<Rightarrow> FileCategory \<Rightarrow> string \<Rightarrow> ValidationOptions \<Rightarrow> ValidationResult" where
  "validateFile e d filePath category declaredMime options =
     (case d filePath of
        None \<Rightarrow>
          \<lparr>valid = False, errors = [File_does_not_exist], warnings = [], vr_category = None,
           vr_mimeType = None, vr_fileSize = None, malwareScan = None,
           checks_run = [Check_exists]\<rparr>
      | Some content \<Rightarrow>
          let errors1 = opt_list (validateExtension filePath category);
              mimeCheck = validateMimeType e d filePath category declaredMime
                            (enableMimeVerification options);
              errors2 = errors1 @ opt_list (mime_error mimeCheck);
              warnings' = (if mime_error mimeCheck = None then opt_list (mime_warning mimeCheck)
                           else []);
              errors3 = errors2 @ opt_list (validateFileSize d filePath category);
              scanning = (enableMalwareScan options \<noteq> Some False);
              checks4 = [Check_exists, Check_extension, Check_mime, Check_size]
                        @ (if scanning then [Check_malware] else [])
          in (case (if scanning then Some (scanFile e filePath content category) else None) of
                Some (Inl err) \<Rightarrow>
                  \<lparr>valid = False, errors = errors3 @ [Validation_error (message_of err)],
                   warnings = warnings', vr_category = None, vr_mimeType = None,
                   vr_fileSize = None, malwareScan = None, checks_run = checks4\<rparr>
              | scan \<Rightarrow>
                  let malwareScan' = (case scan of Some (Inr r) \<Rightarrow> Some r | _ \<Rightarrow> None);
                      errors4 = errors3 @
                        (case malwareScan' of
                           Some r \<Rightarrow> if \<not> safe r then [Security_failed (details r)] else []
                         | None \<Rightarrow> []);
                      imageChecked = (category = Cat_image \<and> errors4 = []);
                      errors5 = errors4 @
                        (if imageChecked then opt_list (validateImageIntegrity e filePath content)
                         else [])
                  in \<lparr>valid = (errors5 = []), errors = errors5, warnings = warnings',
                      vr_category = Some category, vr_mimeType = detectedMime mimeCheck,
                      vr_fileSize = Some (int (length content)), malwareScan = malwareScan',
                      checks_run = checks4 @ (if imageChecked then [Check_image] else [])\<rparr>))"

section \<open>Storage (storage.service.ts, crypto.util.ts)\<close>

record SaveFileResult =
  storedFilename :: string
  storagePath :: string
  fileHash :: string
  fileSize :: int

record MultipartFile =
  mp_filename :: string
  mp_mimetype :: string
  mp_file :: string

text \<open>The constructor of \<open>StorageService\<close> and \<open>ImageService\<close>: \<open>path.resolve(baseDir)\<close>.\<close>

definition baseDir :: "env \<Rightarrow> string" where
  "baseDir e = path_resolve (cwd e) [UPLOAD_DIR (cfg e)]"

text \<open>\<open>generateUniqueFilename\<close>, with the value of \<open>crypto.randomUUID()\<close> as \<open>uuid\<close>.\<close>

definition generateUniqueFilename :: "string \<Rightarrow> string \<Rightarrow> string" where
  "generateUniqueFilename uuid originalFilename = uuid @ getFileExtension originalFilename"

text \<open>
  \<open>saveStream\<close>. \<open>mkdir\<close> creates the directory of the category, so the write stream can
  be opened only for a file directly in it (\<open>ENOENT\<close> otherwise); \<open>io_fails\<close> stands for
  any other failure of the stream, of reading the file back or of \<open>stat\<close>. What a failed
  write leaves on disk is not modelled.
\<close>

definition saveStream ::
  "env \<Rightarrow> bool \<Rightarrow> string \<Rightarrow> string \<Rightarrow> string \<Rightarrow> FileCategory \<Rightarrow> disk
     \<Rightarrow> (error + SaveFileResult) \<times> disk" where
  "saveStream e io_fails uuid fileStream originalFilename category d =
     (let storedFilename' = generateUniqueFilename uuid originalFilename;
          categoryDir = path_join [baseDir e, ''raw'', category_name category];
          filePath = path_join [categoryDir, storedFilename']
      in if \<not> validatePath (cwd e) filePath (baseDir e) then (Inl (Error ''Invalid file path''), d)
         else if path_join [categoryDir, path_basename filePath] \<noteq> filePath
         then (Inl (Error ''ENOENT''), d)
         else if io_fails then (Inl (Error ''EIO''), d)
         else (Inr \<lparr>storedFilename = storedFilename',
                    storagePath = path_relative (cwd e) (baseDir e) filePath,
                    fileHash = sha256 e fileStream,
                    fileSize = int (length fileStream)\<rparr>,
               d(filePath \<mapsto> fileStream)))"

definition getFilePath :: "env \<Rightarrow> string \<Rightarrow> FileCategory \<Rightarrow> error + string" where
  "getFilePath e storedFilename' category =
     (let filePath = path_join [baseDir e, ''raw'', category_name category, storedFilename']
      in if \<not> validatePath (cwd e) filePath (baseDir e) then Inl (Error ''Invalid file path'')
         else Inr filePath)"

text \<open>
  \<open>deleteFile\<close>: \<open>true\<close> after an \<open>unlink\<close>, \<open>false\<close> when anything in the \<open>try\<close> threw:
  \<open>getFilePath\<close> on a path it refuses, or \<open>unlink\<close>, which throws for a file that is not
  there (\<open>ENOENT\<close>) and, when \<open>unlink_throws\<close>, for one that is (\<open>EPERM\<close>, \<open>EBUSY\<close>, an
  I/O error). The \<open>catch\<close> swallows the error, and the file stays where it is.
\<close>

definition deleteFile ::
  "env \<Rightarrow> bool \<Rightarrow> string \<Rightarrow> FileCategory \<Rightarrow> disk \<Rightarrow> bool \<times> disk" where
  "deleteFile e unlink_throws storedFilename' category d =
     (case getFilePath e storedFilename' category of
        Inl err \<Rightarrow> (False, d)
      | Inr filePath \<Rightarrow>
          (case d filePath of
             None \<Rightarrow> (False, d)
           | Some content \<Rightarrow>
               if unlink_throws then (False, d) else (True, d(filePath := None))))"

section \<open>File records (file.model.ts, file.repository.ts)\<close>

datatype ValidationStatus = Pending | Safe | Malicious | Status_failed

record FileModel =
  file_id :: string
  filename :: string
  stored_filename :: string
  category :: FileCategory
  mime_type :: string
  file_size :: int
  file_extension :: string
  storage_path :: string
  is_optimizable :: bool
  optimized_versions :: "string option"
  hash_sha256 :: string
  is_validated :: bool
  validation_status :: ValidationStatus
  uploaded_by_token :: "string option"
  download_count :: nat
  file_created_at :: int
  file_updated_at :: int

record CreateFileInput =
  ci_id :: string
  ci_filename :: string
  ci_stored_filename :: string
  ci_category :: FileCategory
  ci_mime_type :: string
  ci_file_size :: int
  ci_file_extension :: string
  ci_storage_path :: string
  ci_is_optimizable :: bool
  ci_hash_sha256 :: string
  ci_uploaded_by_token :: "string option"

record UpdateFileInput =
  up_is_validated :: "bool option"
  up_validation_status :: "ValidationStatus option"
  up_optimized_versions :: "string option"
  up_download_count :: "nat option"

definition file_findById :: "FileModel list \<Rightarrow> string \<Rightarrow> FileModel option" where
  "file_findById rows i = find (\<lambda>r. file_id r = i) rows"

text \<open>
  \<open>FileRepository.create\<close>: the \<open>INSERT\<close> fails when the statement cannot run
  (\<open>db_fails\<close>) or a row already has the primary key, the \<open>UNIQUE\<close> stored file name or
  the \<open>UNIQUE\<close> hash; \<open>is_validated\<close>, \<open>validation_status\<close> and the other unnamed
  columns take the defaults of the \<open>files\<close> table. The new row is then read back by id,
  which can fail in turn (\<open>read_fails\<close>) with the row already inserted.
\<close>

definition file_create ::
  "bool \<Rightarrow> bool \<Rightarrow> int \<Rightarrow> CreateFileInput \<Rightarrow> FileModel list
     \<Rightarrow> (error + FileModel) \<times> FileModel list" where
  "file_create db_fails read_fails now input rows =
     (if db_fails then (Inl (Error ''ER_QUERY''), rows)
      else if \<exists>r \<in> set rows. file_id r = ci_id input
                \<or> stored_filename r = ci_stored_filename input
                \<or> hash_sha256 r = ci_hash_sha256 input
      then (Inl (Error ''ER_DUP_ENTRY''), rows)
      else
        let row = \<lparr>file_id = ci_id input,
                   filename = ci_filename input,
                   stored_filename = ci_stored_filename input,
                   category = ci_category input,
                   mime_type = ci_mime_type input,
                   file_size = ci_file_size input,
                   file_extension = ci_file_extension input,
                   storage_path = ci_storage_path input,
                   is_optimizable = ci_is_optimizable input,
                   optimized_versions = None,
                   hash_sha256 = ci_hash_sha256 input,
                   is_validated = False,
                   validation_status = Pending,
                   uploaded_by_token =
                     (if truthy_str (ci_uploaded_by_token input) then ci_uploaded_by_token input
                      else None),
                   download_count = 0,
                   file_created_at = now,
                   file_updated_at = now\<rparr>;
            rows' = rows @ [row]
        in if read_fails then (Inl (Error ''ER_QUERY''), rows')
           else
             (case file_findById rows' (ci_id input) of
                None \<Rightarrow> (Inl (Error ''Failed to create file record''), rows')
              | Some created \<Rightarrow> (Inr created, rows')))"

text \<open>\<open>FileRepository.findByHash\<close>: the first row of the \<open>SELECT\<close>, if any.\<close>

definition findByHash :: "FileModel list \<Rightarrow> string \<Rightarrow> FileModel option" where
  "findByHash rows h =
     find (\<lambda>r. hash_sha256 r = h \<and> is_validated r \<and> validation_status r = Safe) rows"

definition apply_update :: "int \<Rightarrow> UpdateFileInput \<Rightarrow> FileModel \<Rightarrow> FileModel" where
  "apply_update now input r =
     r\<lparr>is_validated := (case up_is_validated input of None \<Rightarrow> is_validated r | Some v \<Rightarrow> v),
       validation_status :=
         (case up_validation_status input of None \<Rightarrow> validation_status r | Some v \<Rightarrow> v),
       optimized_versions :=
         (case up_optimized_versions input of None \<Rightarrow> optimized_versions r | Some v \<Rightarrow> Some v),
       download_count :=
         (case up_download_count input of None \<Rightarrow> download_count r | Some v \<Rightarrow> v),
       file_updated_at := now\<rparr>"

definition file_update :: "int \<Rightarrow> string \<Rightarrow> UpdateFileInput \<Rightarrow> FileModel list \<Rightarrow> FileModel list" where
  "file_update now i input rows =
     (if up_is_validated input = None \<and> up_validation_status input = None
         \<and> up_optimized_versions input = None \<and> up_download_count input = None
      then rows
      else map (\<lambda>r. if file_id r = i then apply_update now input r else r) rows)"

section \<open>The upload pipeline (upload.service.ts, cdn.controller.ts, auth.middleware.ts)\<close>

text \<open>
  The state the requests share: the token tables, the \<open>files\<close> table and the storage
  directory.
\<close>

record world =
  tokens :: token_db
  files :: "FileModel list"
  storage :: disk

text \<open>
  What one upload request brings besides its file: the header, the time, the two random
  UUIDs the pipeline draws, and which of its I/O and database calls fail: the lookup of
  \<open>validateToken\<close>, the write of \<open>saveStream\<close>, the \<open>unlink\<close> of \<open>deleteFile\<close>, the
  \<open>SELECT\<close> of \<open>findByHash\<close>, the \<open>INSERT\<close> of \<open>create\<close> and the \<open>SELECT\<close> that reads
  the row back, the \<open>UPDATE\<close> of \<open>update\<close>, the \<open>UPDATE\<close> of \<open>markAsUsed\<close>, and the
  \<open>INSERT\<close> into the usage log after a success and after a failure.
\<close>

record faults =
  validate_fails :: bool
  save_fails :: bool
  unlink_fails :: bool
  findByHash_fails :: bool
  create_fails :: bool
  readback_fails :: bool
  update_fails :: bool
  markAsUsed_fails :: bool
  logUsage_fails :: bool
  logFailed_fails :: bool

record request =
  x_upload_token :: "string option"
  multipart :: "MultipartFile option"
  ip :: string
  agent :: "string option"
  now :: int
  stored_uuid :: string
  record_uuid :: string
  failing :: faults

text \<open>\<open>token.max_file_size || getMaxSize(category)\<close>.\<close>

definition upload_maxSize :: "UploadTokenModel \<Rightarrow> FileCategory \<Rightarrow> int" where
  "upload_maxSize tk cat =
     (if truthy_int (max_file_size tk) then the (max_file_size tk) else getMaxSize cat)"

definition upload_category :: "MultipartFile \<Rightarrow> FileCategory" where
  "upload_category f =
     (let categoryFromExt = detectCategoryFromExtension (mp_filename f);
          categoryFromMime = detectCategoryFromMimeType (mp_mimetype f)
      in if categoryFromMime \<noteq> Cat_other then categoryFromMime else categoryFromExt)"

text \<open>
  The \<open>try\<close> block of \<open>handleUpload\<close>, from the size check to the return, with the state
  each exit leaves behind. The \<open>catch\<close> block follows in \<open>handleUpload\<close>.
\<close>

definition upload_try ::
  "env \<Rightarrow> request \<Rightarrow> MultipartFile \<Rightarrow> UploadTokenModel \<Rightarrow> FileCategory \<Rightarrow> SaveFileResult
     \<Rightarrow> world \<Rightarrow> (error + FileModel) \<times> world" where
  "upload_try e rq f tk cat tempResult w =
     (if fileSize tempResult > upload_maxSize tk cat
      then (Inl (CDNError ''FILE_TOO_LARGE'' 400 (Detail ''File size exceeds limit'')),
            w\<lparr>storage := snd (deleteFile e (unlink_fails (failing rq))
                                     (storedFilename tempResult) cat (storage w))\<rparr>)
      else if findByHash_fails (failing rq) then (Inl (Error ''ER_QUERY''), w)
      else
        (case findByHash (files w) (fileHash tempResult) of
           Some existingFile \<Rightarrow>
             (Inr existingFile,
              w\<lparr>storage := snd (deleteFile e (unlink_fails (failing rq))
                                       (storedFilename tempResult) cat (storage w))\<rparr>)
         | None \<Rightarrow>
             (case getFilePath e (storedFilename tempResult) cat of
                Inl err \<Rightarrow> (Inl err, w)
              | Inr filePath \<Rightarrow>
                  let validationResult =
                        validateFile e (storage w) filePath cat (mp_mimetype f)
                          \<lparr>enableMalwareScan = Some (ENABLE_MALWARE_SCAN (cfg e)),
                           enableMimeVerification = Some (ENABLE_MIME_VERIFICATION (cfg e)),
                           opt_cat = Some cat\<rparr>
                  in if \<not> valid validationResult
                     then (Inl (CDNError ''SECURITY_VALIDATION_FAILED'' 400
                                  (Detail_errors (errors validationResult))),
                           w\<lparr>storage :=
                                snd (deleteFile e (unlink_fails (failing rq))
                                     (storedFilename tempResult) cat (storage w))\<rparr>)
                     else
                       (case file_create (create_fails (failing rq))
                               (readback_fails (failing rq)) (now rq)
                               \<lparr>ci_id = record_uuid rq,
                                ci_filename = mp_filename f,
                                ci_stored_filename = storedFilename tempResult,
                                ci_category = cat,
                                ci_mime_type = mp_mimetype f,
                                ci_file_size = fileSize tempResult,
                                ci_file_extension = getFileExtension (mp_filename f),
                                ci_storage_path = storagePath tempResult,
                                ci_is_optimizable = isOptimizable cat,
                                ci_hash_sha256 = fileHash tempResult,
                                ci_uploaded_by_token = Some (token tk)\<rparr>
                               (files w) of
                          (Inl err, rows) \<Rightarrow> (Inl err, w\<lparr>files := rows\<rparr>)
                        | (Inr fileModel, rows) \<Rightarrow>
                            if update_fails (failing rq)
                            then (Inl (Error ''ER_QUERY''), w\<lparr>files := rows\<rparr>)
                            else (Inr fileModel,
                                  w\<lparr>files :=
                                       file_update (now rq) (file_id fileModel)
                                         \<lparr>up_is_validated = Some True,
                                          up_validation_status = Some Safe,
                                          up_optimized_versions = None,
                                          up_download_count = None\<rparr>
                                         rows\<rparr>)))))"

definition handleUpload ::
  "env \<Rightarrow> request \<Rightarrow> MultipartFile \<Rightarrow> UploadTokenModel \<Rightarrow> world \<Rightarrow> (error + FileModel) \<times> world" where
  "handleUpload e rq f tk w =
     (let cat = upload_category f
      in if allowed_category tk \<noteq> Any_category \<and> allowed_category tk \<noteq> Category cat
         then (Inl (CDNError ''FILE_CATEGORY_MISMATCH'' 403 (Detail ''Token category'')), w)
         else
           (case saveStream e (save_fails (failing rq)) (stored_uuid rq) (mp_file f)
                   (mp_filename f) cat (storage w) of
              (Inl err, d) \<Rightarrow> (Inl err, w\<lparr>storage := d\<rparr>)
            | (Inr tempResult, d) \<Rightarrow>
                (case upload_try e rq f tk cat tempResult (w\<lparr>storage := d\<rparr>) of
                   (Inl err, w') \<Rightarrow>
                     (Inl err,
                      w'\<lparr>storage := snd (deleteFile e (unlink_fails (failing rq))
                                                (storedFilename tempResult) cat (storage w'))\<rparr>)
                 | (Inr fileModel, w') \<Rightarrow> (Inr fileModel, w'))))"

subsection \<open>TokenService, as the controller uses it\<close>

definition markTokenAsUsed ::
  "request \<Rightarrow> nat \<Rightarrow> string option \<Rightarrow> token_db \<Rightarrow> error option \<times> token_db" where
  "markTokenAsUsed rq tokenId fileId db =
     (if markAsUsed_fails (failing rq) then (Some (Error ''ER_QUERY''), db)
      else
        let db1 = markAsUsed (now rq) tokenId db
        in if logUsage_fails (failing rq) then (Some (Error ''ER_QUERY''), db1)
           else (None,
                 logUsage \<lparr>log_token_id = tokenId, log_file_id = fileId, ip_address = None,
                           user_agent = None, status = Success, error_message = None\<rparr> db1))"

definition logFailedUsage ::
  "request \<Rightarrow> nat \<Rightarrow> string \<Rightarrow> token_db \<Rightarrow> error option \<times> token_db" where
  "logFailedUsage rq tokenId errorMessage db =
     (if logFailed_fails (failing rq) then (Some (Error ''ER_QUERY''), db)
      else (None,
            logUsage \<lparr>log_token_id = tokenId, log_file_id = None, ip_address = Some (ip rq),
                      user_agent = agent rq, status = Failed,
                      error_message = Some errorMessage\<rparr> db))"

subsection \<open>authMiddleware and CdnController.uploadFile\<close>

text \<open>
  \<open>authMiddleware\<close> reads the token of the header and validates it; on success the token
  row it read becomes \<open>request.uploadToken\<close>. An exception of the lookup is answered
  like an invalid token, without a reason.
\<close>

definition authMiddleware :: "request \<Rightarrow> world \<Rightarrow> error + UploadTokenModel" where
  "authMiddleware rq w =
     (if \<not> truthy_str (x_upload_token rq) then Inl (CDNError ''AUTH_TOKEN_MISSING'' 401 No_detail)
      else if validate_fails (failing rq) then Inl (CDNError ''AUTH_TOKEN_INVALID'' 401 No_detail)
      else
        let validation = validateToken (now rq) (tokens w) (the (x_upload_token rq))
        in if \<not> tv_valid validation
           then Inl (CDNError ''AUTH_TOKEN_INVALID'' 401
                       (case reason validation of None \<Rightarrow> No_detail | Some r \<Rightarrow> Detail r))
           else (case tv_token validation of
                   None \<Rightarrow> Inl (CDNError ''AUTH_TOKEN_INVALID'' 401 No_detail)
                 | Some tk \<Rightarrow> Inr tk))"

record UploadFileResponse =
  success :: bool
  resp_id :: string
  url :: string
  directUrl :: string
  resp_filename :: string
  resp_size :: int
  resp_mimeType :: string
  resp_category :: FileCategory
  resp_hash :: string

text \<open>The \<open>catch\<close> block of \<open>uploadFile\<close>: log the failed use, then throw the error again.\<close>

definition upload_catch ::
  "request \<Rightarrow> UploadTokenModel \<Rightarrow> error \<Rightarrow> world \<Rightarrow> (error + UploadFileResponse) \<times> world" where
  "upload_catch rq uploadToken err w =
     (case logFailedUsage rq (tok_id uploadToken) (message_of err) (tokens w) of
        (Some err', db) \<Rightarrow> (Inl err', w\<lparr>tokens := db\<rparr>)
      | (None, db) \<Rightarrow> (Inl err, w\<lparr>tokens := db\<rparr>))"

definition uploadFile ::
  "env \<Rightarrow> request \<Rightarrow> UploadTokenModel option \<Rightarrow> world \<Rightarrow> (error + UploadFileResponse) \<times> world" where
  "uploadFile e rq uploadToken' w =
     (case uploadToken' of
        None \<Rightarrow> (Inl (CDNError ''AUTH_TOKEN_MISSING'' 401 No_detail), w)
      | Some uploadToken \<Rightarrow>
          (case multipart rq of
             None \<Rightarrow> (Inl (CDNError ''FILE_NOT_PROVIDED'' 400 No_detail), w)
           | Some f \<Rightarrow>
               (case handleUpload e rq f uploadToken w of
                  (Inl err, w1) \<Rightarrow> upload_catch rq uploadToken err w1
                | (Inr result, w1) \<Rightarrow>
                    (case markTokenAsUsed rq (tok_id uploadToken) (Some (file_id result))
                            (tokens w1) of
                       (Some err, db) \<Rightarrow> upload_catch rq uploadToken err (w1\<lparr>tokens := db\<rparr>)
                     | (None, db) \<Rightarrow>
                         (Inr \<lparr>success = True,
                               resp_id = file_id result,
                               url = ''/v1/files/'' @ file_id result,
                               directUrl = ''/v1/files/'' @ stored_filename result,
                               resp_filename = filename result,
                               resp_size = file_size result,
                               resp_mimeType = mime_type result,
                               resp_category = category result,
                               resp_hash = hash_sha256 result\<rparr>,
                          w1\<lparr>tokens := db\<rparr>)))))"

subsection \<open>Requests in flight together\<close>

text \<open>
  Each upload request runs \<open>authMiddleware\<close> and then \<open>uploadFile\<close>; both await the
  database, so the handlers of several requests can interleave between the two. A
  schedule names, step by step, the request that runs its next handler; the handlers
  themselves run without interruption here, which is a subset of the interleavings
  the event loop allows.
\<close>

datatype progress =
    Arrived
  | Authorized UploadTokenModel
  | Finished "error + UploadFileResponse"

definition step ::
  "env \<Rightarrow> request list \<Rightarrow> nat \<Rightarrow> progress list \<times> world \<Rightarrow> progress list \<times> world" where
  "step e rqs i st =
     (let (ps, w) = st
      in if i \<ge> length ps \<or> i \<ge> length rqs then st
         else
           (case ps ! i of
              Arrived \<Rightarrow>
                (case authMiddleware (rqs ! i) w of
                   Inl err \<Rightarrow> (ps[i := Finished (Inl err)], w)
                 | Inr tk \<Rightarrow> (ps[i := Authorized tk], w))
            | Authorized tk \<Rightarrow>
                (case uploadFile e (rqs ! i) (Some tk) w of
                   (r, w') \<Rightarrow> (ps[i := Finished r], w'))
            | Finished r \<Rightarrow> st))"

definition run_schedule ::
  "env \<Rightarrow> request list \<Rightarrow> nat list \<Rightarrow> world \<Rightarrow> progress list \<times> world" where
  "run_schedule e rqs schedule w =
     foldl (\<lambda>st i. step e rqs i st) (replicate (length rqs) Arrived, w) schedule"

definition succeeded :: "progress \<Rightarrow> bool" where
  "succeeded p = (case p of Finished (Inr r) \<Rightarrow> True | _ \<Rightarrow> False)"

section \<open>Image transforms (image.service.ts)\<close>

datatype image_format = Webp | Jpeg | Png | Avif

record OptimizationOptions =
  width :: "int option"
  height :: "int option"
  quality :: "int option"
  format :: "image_format option"

definition format_name :: "image_format \<Rightarrow> string" where
  "format_name f = (case f of Webp \<Rightarrow> ''webp'' | Jpeg \<Rightarrow> ''jpeg'' | Png \<Rightarrow> ''png'' | Avif \<Rightarrow> ''avif'')"

text \<open>A template literal renders an integer in decimal, with a minus sign when negative.\<close>

fun show_nat :: "nat \<Rightarrow> string" where
  "show_nat n =
     (if n < 10 then [char_of (48 + n)] else show_nat (n div 10) @ [char_of (48 + n mod 10)])"

declare show_nat.simps [simp del]

definition show_int :: "int \<Rightarrow> string" where
  "show_int i = (if i < 0 then CHR ''-'' # show_nat (nat (- i)) else show_nat (nat i))"

definition buildCacheKey :: "string \<Rightarrow> OptimizationOptions \<Rightarrow> string" where
  "buildCacheKey filename' options =
     (let quality' = (case quality options of None \<Rightarrow> 80 | Some q \<Rightarrow> q);
          format' = (case format options of None \<Rightarrow> Webp | Some f \<Rightarrow> f)
      in path_parse_name filename'
         @ (if truthy_int (width options) then ''_w'' @ show_int (the (width options)) else [])
         @ (if truthy_int (height options) then ''_h'' @ show_int (the (height options)) else [])
         @ ''_q'' @ show_int quality'
         @ ''.'' @ format_name format')"

text \<open>
  What \<open>sharp\<close> does with the raw file, as a parameter: from the content of the raw file
  (none when the file is missing), the resize box if any, the format and the encoder
  quality to the encoded buffer, or an exception.
\<close>

type_synonym transformer =
  "string option \<Rightarrow> (int option \<times> int option) option \<Rightarrow> image_format \<Rightarrow> int \<Rightarrow> error + string"

text \<open>
  \<open>processImage\<close>. The result says, besides the buffer and the disk, whether the
  transformer ran (\<open>True\<close>) or the buffer came from the cache (\<open>False\<close>).
\<close>

definition processImage ::
  "env \<Rightarrow> transformer \<Rightarrow> bool \<Rightarrow> string \<Rightarrow> OptimizationOptions \<Rightarrow> disk
     \<Rightarrow> (error + string) \<times> disk \<times> bool" where
  "processImage e sharp write_fails storedFilename' options d =
     (let quality' = (case quality options of None \<Rightarrow> 80 | Some q \<Rightarrow> q);
          format' = (case format options of None \<Rightarrow> Webp | Some f \<Rightarrow> f);
          cacheKey = buildCacheKey storedFilename' options;
          cachePath = path_join [baseDir e, ''cache'', ''image'', cacheKey]
      in (case d cachePath of
            Some cachedBuffer \<Rightarrow> (Inr cachedBuffer, d, False)
          | None \<Rightarrow>
              let rawPath = path_join [baseDir e, ''raw'', ''image'', storedFilename']
              in if \<not> validatePath (cwd e) rawPath (baseDir e)
                    \<or> \<not> validatePath (cwd e) cachePath (baseDir e)
                 then (Inl (Error ''Invalid file path''), d, False)
                 else
                   let resize = (if truthy_int (width options) \<or> truthy_int (height options)
                                 then Some (width options, height options) else None);
                       clampedQuality = max 1 (min 100 quality')
                   in (case sharp (d rawPath) resize format' clampedQuality of
                         Inl err \<Rightarrow> (Inl err, d, True)
                       | Inr buffer \<Rightarrow>
                           if write_fails then (Inl (Error ''EIO''), d, True)
                           else (Inr buffer, d(cachePath \<mapsto> buffer), True))))"

section \<open>Predicates and sample data used in the statements\<close>

text \<open>A path segment that normalisation keeps: not empty, not \<open>.\<close> or \<open>..\<close>, without a separator.\<close>

definition no_sep :: "string \<Rightarrow> bool" where
  "no_sep s = (CHR ''/'' \<notin> set s)"

definition clean :: "string \<Rightarrow> bool" where
  "clean s = (s \<noteq> [] \<and> s \<noteq> ''.'' \<and> s \<noteq> ''..'' \<and> no_sep s)"


text \<open>
  A sample environment: the process runs in \<open>/app\<close>, files are stored under
  \<open>/srv/uploads\<close>, the sniffing of MIME types is switched off, the hash of a content is
  the content after an \<open>h\<close>, a file is a PNG image when it starts with \<open>PNG\<close>, the
  malware scan flags the files that start with \<open>MZ\<close>, and every image decodes.
\<close>

definition sample_env :: env where
  "sample_env =
     \<lparr>cwd = ''/app'',
      cfg = default_config\<lparr>UPLOAD_DIR := ''/srv/uploads'', ENABLE_MIME_VERIFICATION := False\<rparr>,
      sha256 = (\<lambda>s. CHR ''h'' # s),
      fileTypeFromBuffer = (\<lambda>b. if take 3 b = ''PNG'' then Some ''image/png'' else None),
      scanFile = (\<lambda>p c k. Inr \<lparr>safe = (take 2 c \<noteq> ''MZ''), details = ''executable header''\<rparr>),
      imageIntegrity = (\<lambda>p c. Inr True)\<rparr>"

definition sample_token :: UploadTokenModel where
  "sample_token =
     \<lparr>tok_id = 1, token = ''abcd'', allowed_category = Any_category, max_file_size = None,
      max_uses = 1, current_uses = 0, created_by = None, metadata = None, is_active = True,
      is_used = False, expires_at = Some 3601000, created_at = 1000, used_at = None\<rparr>"

definition sample_world :: world where
  "sample_world =
     \<lparr>tokens = \<lparr>upload_tokens = [sample_token], token_usage_log = []\<rparr>,
      files = [], storage = Map.empty\<rparr>"

definition no_faults :: faults where
  "no_faults =
     \<lparr>validate_fails = False, save_fails = False, unlink_fails = False,
      findByHash_fails = False, create_fails = False, readback_fails = False,
      update_fails = False, markAsUsed_fails = False, logUsage_fails = False,
      logFailed_fails = False\<rparr>"

definition sample_request :: "string \<Rightarrow> string \<Rightarrow> string \<Rightarrow> string \<Rightarrow> int \<Rightarrow> request" where
  "sample_request name content uuid1 uuid2 t =
     \<lparr>x_upload_token = Some ''abcd'',
      multipart = Some \<lparr>mp_filename = name, mp_mimetype = ''image/png'', mp_file = content\<rparr>,
      ip = ''10.0.0.1'', agent = None, now = t, stored_uuid = uuid1, record_uuid = uuid2,
      failing = no_faults\<rparr>"


text \<open>
  The lifetime of a new token in seconds: \<open>expiresIn\<close> when it is given and not zero,
  the configured default otherwise.
\<close>

definition expiry_seconds :: "config \<Rightarrow> GenerateTokenOptions \<Rightarrow> int" where
  "expiry_seconds c options =
     (case expiresIn options of
        None \<Rightarrow> TOKEN_DEFAULT_EXPIRY c
      | Some n \<Rightarrow> if n = 0 then TOKEN_DEFAULT_EXPIRY c else n)"

definition no_options :: GenerateTokenOptions where
  "no_options =
     \<lparr>opt_category = None, maxFileSize = None, expiresIn = None, createdBy = None,
      opt_metadata = None, maxUses = None\<rparr>"






text \<open>The path of a stored file, as \<open>getFilePath\<close> builds it.\<close>

definition raw_path :: "env \<Rightarrow> FileCategory \<Rightarrow> string \<Rightarrow> string" where
  "raw_path e cat stored = path_join [baseDir e, ''raw'', category_name cat, stored]"

text \<open>The options \<open>handleUpload\<close> passes to \<open>validateFile\<close>.\<close>

definition pipeline_options :: "env \<Rightarrow> FileCategory \<Rightarrow> ValidationOptions" where
  "pipeline_options e cat =
     \<lparr>enableMalwareScan = Some (ENABLE_MALWARE_SCAN (cfg e)),
      enableMimeVerification = Some (ENABLE_MIME_VERIFICATION (cfg e)),
      opt_cat = Some cat\<rparr>"

text \<open>The token allows the category of the upload: the negation of the mismatch test.\<close>

definition category_permitted :: "UploadTokenModel \<Rightarrow> FileCategory \<Rightarrow> bool" where
  "category_permitted tk cat =
     (allowed_category tk = Any_category \<or> allowed_category tk = Category cat)"

text \<open>Sample data: an executable uploaded as a PNG image, and what \<open>saveStream\<close> returns for it.\<close>

definition malicious_upload :: MultipartFile where
  "malicious_upload = \<lparr>mp_filename = ''evil.png'', mp_mimetype = ''image/png'', mp_file = ''MZ-program''\<rparr>"

definition saved_malicious :: SaveFileResult where
  "saved_malicious = \<lparr>storedFilename = ''u1.png'', storagePath = ''raw/image/u1.png'',
                       fileHash = ''hMZ-program'', fileSize = 10\<rparr>"

text \<open>
  The limit the claim names: the tighter of the token's \<open>max_file_size\<close>, when the token
  has one (\<open>null\<close> and \<open>0\<close> both count as none, as in \<open>TokenRepository.create\<close> and in
  \<open>handleUpload\<close>), and the \<open>maxSize\<close> of the category.
\<close>

definition effective_max :: "UploadTokenModel \<Rightarrow> FileCategory \<Rightarrow> int" where
  "effective_max tk cat =
     (case max_file_size tk of
        None \<Rightarrow> getMaxSize cat
      | Some n \<Rightarrow> if n = 0 then getMaxSize cat else min n (getMaxSize cat))"

text \<open>Sample data: a token that allows five bytes, a PNG upload and the record it creates.\<close>

definition small_token :: UploadTokenModel where
  "small_token = sample_token\<lparr>max_file_size := Some 5\<rparr>"

definition png_upload :: "string \<Rightarrow> MultipartFile" where
  "png_upload content = \<lparr>mp_filename = ''cat.png'', mp_mimetype = ''image/png'', mp_file = content\<rparr>"

definition stored_png :: "string \<Rightarrow> FileModel" where
  "stored_png content =
     \<lparr>file_id = ''r1'', filename = ''cat.png'', stored_filename = ''u1.png'', category = Cat_image,
      mime_type = ''image/png'', file_size = int (length content), file_extension = ''.png'',
      storage_path = ''raw/image/u1.png'', is_optimizable = True, optimized_versions = None,
      hash_sha256 = CHR ''h'' # content, is_validated = False, validation_status = Pending,
      uploaded_by_token = Some ''abcd'', download_count = 0, file_created_at = 2000,
      file_updated_at = 2000\<rparr>"

text \<open>
  Sample data: a world whose \<open>files\<close> table holds the validated record of a PNG file, and
  what \<open>saveStream\<close> returns for a second upload of the same content.
\<close>

definition safe_png :: FileModel where
  "safe_png = (stored_png ''PNG12'')\<lparr>is_validated := True, validation_status := Safe\<rparr>"

definition world_with_png :: world where
  "world_with_png = sample_world\<lparr>files := [safe_png]\<rparr>"

definition saved_copy :: SaveFileResult where
  "saved_copy = \<lparr>storedFilename = ''u2.png'', storagePath = ''raw/image/u2.png'',
                  fileHash = ''hPNG12'', fileSize = 5\<rparr>"

text \<open>
  Sample data: a token that allows 20 MiB, a content one byte over the 10 MiB of the
  image category, and a world whose \<open>files\<close> table holds the validated record of that
  content, uploaded earlier as a video.
\<close>

definition large_token :: UploadTokenModel where
  "large_token = sample_token\<lparr>max_file_size := Some 20971520\<rparr>"

definition oversize_content :: string where
  "oversize_content = replicate 10485761 (CHR ''a'')"

definition safe_video :: FileModel where
  "safe_video =
     \<lparr>file_id = ''r0'', filename = ''clip.mp4'', stored_filename = ''u0.mp4'',
      category = Cat_video, mime_type = ''video/mp4'', file_size = 10485761,
      file_extension = ''.mp4'', storage_path = ''raw/video/u0.mp4'', is_optimizable = False,
      optimized_versions = None, hash_sha256 = CHR ''h'' # oversize_content,
      is_validated = True, validation_status = Safe, uploaded_by_token = Some ''wxyz'',
      download_count = 0, file_created_at = 1500, file_updated_at = 1500\<rparr>"

definition world_with_video :: world where
  "world_with_video = sample_world\<lparr>files := [safe_video]\<rparr>"

text \<open>
  The cache key as the specification words it: the name, the width and height when
  given, the quality clamped to the range from 1 to 100, the format extension.
\<close>

definition spec_cache_key :: "string \<Rightarrow> OptimizationOptions \<Rightarrow> string" where
  "spec_cache_key filename' options =
     path_parse_name filename'
     @ (if truthy_int (width options) then ''_w'' @ show_int (the (width options)) else [])
     @ (if truthy_int (height options) then ''_h'' @ show_int (the (height options)) else [])
     @ ''_q'' @ show_int (max 1 (min 100 (case quality options of None \<Rightarrow> 80 | Some q \<Rightarrow> q)))
     @ ''.'' @ format_name (case format options of None \<Rightarrow> Webp | Some f \<Rightarrow> f)"






text \<open>
  Sample data: two uploads that present the same single-use token, and what a run leaves
  behind: which requests succeeded, the use counts of the tokens and the ids of the
  file records.
\<close>

definition first_request :: request where
  "first_request = sample_request ''cat.png'' ''PNG12'' ''u1'' ''r1'' 2000"

definition second_request :: request where
  "second_request = sample_request ''dog.png'' ''PNG34'' ''u2'' ''r2'' 2001"

definition outcome :: "progress list \<times> world \<Rightarrow> bool list \<times> nat list \<times> string list" where
  "outcome st =
     (map succeeded (fst st), map current_uses (upload_tokens (tokens (snd st))),
      map file_id (files (snd st)))"

section \<open>Lemmas about paths\<close>

lemma split_sep_nonempty: "split_sep p \<noteq> []"
  by (induction p) (auto split: list.splits)

lemma split_sep_no_sep: "s \<in> set (split_sep p) \<Longrightarrow> no_sep s"
  by (induction p arbitrary: s) (auto simp: no_sep_def split: if_splits list.splits)

lemma split_sep_append: "split_sep (a @ CHR ''/'' # b) = split_sep a @ split_sep b"
proof (induction a)
  case Nil
  then show ?case by simp
next
  case (Cons c a)
  then show ?case
    using split_sep_nonempty [of a]
    by (cases "split_sep a") (auto split: list.splits)
qed

lemma split_sep_single: "no_sep s \<Longrightarrow> split_sep s = [s]"
  by (induction s) (auto simp: no_sep_def)

lemma split_join: "xs \<noteq> [] \<Longrightarrow> \<forall>s \<in> set xs. no_sep s \<Longrightarrow> split_sep (join_sep xs) = xs"
proof (induction xs rule: join_sep.induct)
  case 1
  then show ?case by simp
next
  case (2 x)
  then show ?case by (simp add: split_sep_single)
next
  case (3 x y ys)
  then show ?case by (simp add: split_sep_append split_sep_single)
qed

lemma normalize_segs_append:
  "normalize_segs a acc (xs @ ys) = normalize_segs a (rev (normalize_segs a acc xs)) ys"
  by (induction a acc xs rule: normalize_segs.induct) (auto split: list.splits)

lemma normalize_segs_clean:
  "\<forall>s \<in> set xs. clean s \<Longrightarrow> normalize_segs a acc xs = rev acc @ xs"
  by (induction xs arbitrary: acc) (auto simp: clean_def)

lemma normalize_segs_result_clean:
  "\<forall>s \<in> set acc. clean s \<Longrightarrow> \<forall>s \<in> set xs. no_sep s \<Longrightarrow>
   \<forall>s \<in> set (normalize_segs False acc xs). clean s"
proof (induction xs arbitrary: acc)
  case Nil
  then show ?case by simp
next
  case (Cons x xs)
  have rest: "\<forall>s \<in> set xs. no_sep s" using Cons.prems(2) by simp
  have nx: "no_sep x" using Cons.prems(2) by simp
  consider (skip) "x = [] \<or> x = ''.''" | (up) "x = ''..''" | (keep) "clean x"
    using nx by (auto simp: clean_def)
  then show ?case
  proof cases
    case skip
    then show ?thesis using Cons.IH [OF Cons.prems(1) rest] by auto
  next
    case up
    show ?thesis
    proof (cases acc)
      case Nil
      then show ?thesis using up Cons.IH [of "[]", OF _ rest] by simp
    next
      case (Cons t ts)
      then have "t \<noteq> ''..''" and "\<forall>s \<in> set ts. clean s"
        using Cons.prems(1) by (auto simp: clean_def)
      then show ?thesis using up Cons Cons.IH [of ts, OF _ rest] by simp
    qed
  next
    case keep
    then have "\<forall>s \<in> set (x # acc). clean s" using Cons.prems(1) by simp
    from Cons.IH [OF this rest] show ?thesis using keep by (simp add: clean_def)
  qed
qed

text \<open>Normalising an absolute path and splitting it again gives the same segments.\<close>

lemma normalize_absolute_form:
  assumes "isAbsolute p"
  shows "path_normalize p =
           (let n = normalize_segs False [] (split_sep p)
            in if n = [] then ''/'' else CHR ''/'' # join_sep n @ (if last p = CHR ''/'' then ''/'' else []))"
proof -
  from assms have "p \<noteq> []" by (auto simp: isAbsolute_def)
  have j: "join_sep n = [] \<longleftrightarrow> n = []" if "\<forall>s \<in> set n. clean s" for n
    using that by (cases n rule: join_sep.cases) (auto simp: clean_def)
  have "\<forall>s \<in> set (normalize_segs False [] (split_sep p)). clean s"
    by (rule normalize_segs_result_clean) (auto intro: split_sep_no_sep)
  from j [OF this] show ?thesis
    using assms \<open>p \<noteq> []\<close> by (simp add: path_normalize_def normalizeString_def Let_def)
qed

lemma segs_of_normalized:
  assumes "isAbsolute p"
  shows "normalize_segs False [] (split_sep (path_normalize p)) = normalize_segs False [] (split_sep p)"
proof -
  define n where "n = normalize_segs False [] (split_sep p)"
  have cl: "\<forall>s \<in> set n. clean s"
    unfolding n_def by (rule normalize_segs_result_clean) (auto intro: split_sep_no_sep)
  then have ns: "\<forall>s \<in> set n. no_sep s" by (simp add: clean_def)
  show ?thesis
  proof (cases "n = []")
    case True
    then show ?thesis
      using normalize_absolute_form [OF assms] by (simp add: n_def [symmetric] Let_def)
  next
    case False
    have a: "split_sep (CHR ''/'' # join_sep n) = [] # n"
      using split_join [OF False ns] by simp
    have b: "split_sep (CHR ''/'' # join_sep n @ ''/'') = [] # n @ [[]]"
      using split_sep_append [of "join_sep n" "[]"] split_join [OF False ns] by simp
    show ?thesis
      using normalize_absolute_form [OF assms] False a b cl
      by (simp add: n_def [symmetric] Let_def normalize_segs_append normalize_segs_clean)
  qed
qed

lemma normalized_is_absolute: "isAbsolute p \<Longrightarrow> isAbsolute (path_normalize p)"
  using normalize_absolute_form [of p] by (simp add: Let_def isAbsolute_def)

lemma last_join_clean:
  "n \<noteq> [] \<Longrightarrow> \<forall>s \<in> set n. clean s \<Longrightarrow> last (CHR ''/'' # join_sep n) \<noteq> CHR ''/''"
proof (induction n rule: join_sep.induct)
  case 1
  then show ?case by simp
next
  case (2 x)
  then have "x \<noteq> []" and "CHR ''/'' \<notin> set x" by (auto simp: clean_def no_sep_def)
  then have "last x \<noteq> CHR ''/''" using last_in_set [of x] by metis
  with \<open>x \<noteq> []\<close> show ?case by simp
next
  case (3 x y ys)
  then have "join_sep (y # ys) \<noteq> []" by (cases ys) (auto simp: clean_def)
  with 3 show ?case by simp
qed

lemma normalize_idem:
  assumes "isAbsolute p"
  shows "path_normalize (path_normalize p) = path_normalize p"
proof -
  define n where "n = normalize_segs False [] (split_sep p)"
  have cl: "\<forall>s \<in> set n. clean s"
    unfolding n_def by (rule normalize_segs_result_clean) (auto intro: split_sep_no_sep)
  have form: "path_normalize p =
      (if n = [] then ''/'' else CHR ''/'' # join_sep n @ (if last p = CHR ''/'' then ''/'' else []))"
    using normalize_absolute_form [OF assms] by (simp add: n_def Let_def)
  have n': "normalize_segs False [] (split_sep (path_normalize p)) = n"
    using segs_of_normalized [OF assms] by (simp add: n_def)
  have "path_normalize (path_normalize p) =
      (if n = [] then ''/''
       else CHR ''/'' # join_sep n @ (if last (path_normalize p) = CHR ''/'' then ''/'' else []))"
    using normalize_absolute_form [OF normalized_is_absolute [OF assms]] by (simp add: n' Let_def)
  moreover have "n \<noteq> [] \<Longrightarrow> (last (path_normalize p) = CHR ''/'') = (last p = CHR ''/'')"
    using form last_join_clean [OF _ cl] by auto
  ultimately show ?thesis using form by auto
qed

lemma normalize_join_left:
  assumes "isAbsolute x" and "s \<noteq> []"
  shows "path_normalize (path_normalize x @ CHR ''/'' # s) = path_normalize (x @ CHR ''/'' # s)"
proof -
  have a1: "isAbsolute (path_normalize x @ CHR ''/'' # s)"
    using normalized_is_absolute [OF assms(1)] by (auto simp: isAbsolute_def split: list.splits)
  have a2: "isAbsolute (x @ CHR ''/'' # s)"
    using assms(1) by (auto simp: isAbsolute_def split: list.splits)
  have segs: "normalize_segs False [] (split_sep (path_normalize x @ CHR ''/'' # s)) =
              normalize_segs False [] (split_sep (x @ CHR ''/'' # s))"
    by (simp add: split_sep_append normalize_segs_append segs_of_normalized [OF assms(1)])
  show ?thesis
    using assms(2) by (simp add: normalize_absolute_form [OF a1] normalize_absolute_form [OF a2] segs)
qed

lemma resolve_is_absolute: "isAbsolute c \<Longrightarrow> isAbsolute (path_resolve c args)"
  by (auto simp: path_resolve_def isAbsolute_def split: prod.splits list.splits bool.splits if_splits)

text \<open>
  \<open>saveStream\<close> joins the file name to the joined directory, \<open>getFilePath\<close> joins all
  four parts at once: under an absolute base directory both give the same path.
\<close>

lemma join_nested:
  assumes "isAbsolute b" and "c \<noteq> []"
  shows "path_join [path_join [b, ''raw'', c], s] = path_join [b, ''raw'', c, s]"
proof -
  from assms(1) have b: "b \<noteq> []" by (auto simp: isAbsolute_def)
  define x where "x = b @ CHR ''/'' # ''raw'' @ CHR ''/'' # c"
  have ax: "isAbsolute x" using assms(1) by (auto simp: x_def isAbsolute_def split: list.splits)
  have d: "path_join [b, ''raw'', c] = path_normalize x"
    using b assms(2) by (simp add: path_join_def x_def)
  have dne: "path_normalize x \<noteq> []"
    using normalized_is_absolute [OF ax] by (auto simp: isAbsolute_def)
  show ?thesis
  proof (cases "s = []")
    case True
    then show ?thesis
      using b assms(2) dne d normalize_idem [OF ax] by (simp add: path_join_def x_def)
  next
    case False
    then show ?thesis
      using b assms(2) dne d normalize_join_left [OF ax False]
      by (simp add: path_join_def x_def)
  qed
qed

section \<open>Path validation\<close>

text \<open>
  C9. \<open>validatePath\<close> is documented to return \<open>true\<close> exactly for the paths inside the base
  directory, and \<open>getFilePath\<close> to throw for the others. It compares strings, so a
  sibling directory whose name starts with the name of the root passes: under the root
  \<open>/srv/uploads\<close> the path \<open>/srv/uploads_evil/x\<close> is accepted although it is not inside
  the root, and \<open>getFilePath\<close> returns it for the stored name \<open>../../../uploads_evil/x\<close>.
\<close>

theorem validatePath_accepts_sibling_of_root:
  "validatePath ''/app'' ''/srv/uploads_evil/x'' ''/srv/uploads''
   \<and> \<not> inside_dir ''/app'' ''/srv/uploads_evil/x'' ''/srv/uploads''
   \<and> baseDir sample_env = ''/srv/uploads''
   \<and> getFilePath sample_env ''../../../uploads_evil/x'' Cat_image = Inr ''/srv/uploads_evil/x''"
  by code_simp

lemma resolve_form:
  assumes "isAbsolute c"
  shows "\<exists>n. (\<forall>s \<in> set n. clean s) \<and> path_resolve c args = CHR ''/'' # join_sep n"
proof -
  have "snd (resolve_args (c # args))"
    using assms
    by (cases "resolve_args args") (auto simp: isAbsolute_def split: list.splits bool.splits)
  then obtain r where r: "resolve_args (c # args) = (r, True)"
    by (cases "resolve_args (c # args)") auto
  have "\<forall>s \<in> set (normalize_segs False [] (split_sep r)). clean s"
    by (rule normalize_segs_result_clean) (auto intro: split_sep_no_sep)
  then show ?thesis using r by (auto simp: path_resolve_def normalizeString_def)
qed

lemma segments_of_joined:
  assumes "\<forall>s \<in> set n. clean s"
  shows "path_segments (CHR ''/'' # join_sep n) = n"
proof (cases "n = []")
  case True
  then show ?thesis by (simp add: path_segments_def)
next
  case False
  from assms have "\<forall>s \<in> set n. no_sep s" by (simp add: clean_def)
  from split_join [OF False this] assms
  have "filter (\<lambda>s. s \<noteq> []) (split_sep (join_sep n)) = n"
    by (simp add: clean_def filter_id_conv)
  then show ?thesis by (simp add: path_segments_def)
qed

lemma join_sep_append:
  "xs \<noteq> [] \<Longrightarrow> ys \<noteq> [] \<Longrightarrow> join_sep (xs @ ys) = join_sep xs @ CHR ''/'' # join_sep ys"
  by (induction xs rule: join_sep.induct) (auto simp: neq_Nil_conv)

lemma join_sep_prefix: "prefix xs ys \<Longrightarrow> prefix (join_sep xs) (join_sep ys)"
proof -
  assume "prefix xs ys"
  then obtain zs where ys: "ys = xs @ zs" by (auto simp: prefix_def)
  show ?thesis
  proof (cases "xs = [] \<or> zs = []")
    case True
    then show ?thesis using ys by auto
  next
    case False
    then show ?thesis using ys by (simp add: join_sep_append)
  qed
qed

text \<open>
  The other half of the documented contract does hold: with an absolute working
  directory, \<open>validatePath\<close> accepts every path inside the base directory.
\<close>

lemma inside_dir_accepted:
  assumes "isAbsolute c" and "inside_dir c filepath base"
  shows "validatePath c filepath base"
proof -
  from resolve_form [OF assms(1), of "[base]"] obtain nb where
    nb: "\<forall>s \<in> set nb. clean s" "path_resolve c [base] = CHR ''/'' # join_sep nb" by blast
  from resolve_form [OF assms(1), of "[base, path_normalize filepath]"] obtain na where
    na: "\<forall>s \<in> set na. clean s"
        "path_resolve c [base, path_normalize filepath] = CHR ''/'' # join_sep na" by blast
  from assms(2) have "prefix nb na"
    by (simp add: inside_dir_def nb na segments_of_joined)
  then show ?thesis
    by (simp add: validatePath_def Let_def nb na join_sep_prefix)
qed

section \<open>Token validation\<close>









section \<open>Token generation\<close>

lemma insertId_fresh: "r \<in> set rows \<Longrightarrow> tok_id r < insertId rows"
  by (induction rows) (auto simp: insertId_def)

lemma find_appended:
  "\<forall>r \<in> set rows. \<not> P r \<Longrightarrow> P x \<Longrightarrow> find P (rows @ [x]) = Some x"
  by (induction rows) auto

lemma token_create_result:
  assumes "token_create fl t input db = (Inr created, db')"
  shows "upload_tokens db' = upload_tokens db @ [created] \<and> token created = in_token input
         \<and> expires_at created = in_expires_at input \<and> token_usage_log db' = token_usage_log db"
proof -
  define row where "row = \<lparr>tok_id = insertId (upload_tokens db),
                   token = in_token input,
                   allowed_category =
                     (case in_allowed_category input of None \<Rightarrow> Any_category | Some c \<Rightarrow> c),
                   max_file_size =
                     (if truthy_int (in_max_file_size input) then in_max_file_size input else None),
                   max_uses = (if truthy_nat (in_max_uses input) then the (in_max_uses input) else 1),
                   current_uses = 0,
                   created_by =
                     (if truthy_str (in_created_by input) then in_created_by input else None),
                   metadata = in_metadata input,
                   is_active = True,
                   is_used = False,
                   expires_at = in_expires_at input,
                   created_at = t,
                   used_at = None\<rparr>"
  have "\<forall>r \<in> set (upload_tokens db). tok_id r \<noteq> insertId (upload_tokens db)"
    using insertId_fresh by fastforce
  then have f: "find (\<lambda>r. tok_id r = insertId (upload_tokens db)) (upload_tokens db @ [row])
                = Some row"
    by (intro find_appended) (auto simp: row_def)
  show ?thesis
    using assms f
    by (auto simp: token_create_def Let_def findById_def row_def [symmetric] split: if_splits)
       (auto simp: row_def)
qed

lemma token_create_succeeds:
  assumes "\<not> fl" and "\<forall>r \<in> set (upload_tokens db). token r \<noteq> in_token input"
  shows "\<exists>created db'. token_create fl t input db = (Inr created, db')"
proof -
  have "\<forall>r \<in> set (upload_tokens db). tok_id r \<noteq> insertId (upload_tokens db)"
    using insertId_fresh by fastforce
  then have "find (\<lambda>r. tok_id r = insertId (upload_tokens db)) (upload_tokens db @ [x]) = Some x"
    if "tok_id x = insertId (upload_tokens db)" for x
    using that by (intro find_appended) auto
  then show ?thesis
    using assms by (simp add: token_create_def Let_def findById_def)
qed

lemma truthy_expiry:
  "(if truthy_int (expiresIn options) then the (expiresIn options) else TOKEN_DEFAULT_EXPIRY c)
   = expiry_seconds c options"
  by (auto simp: truthy_int_def expiry_seconds_def split: option.splits)

text \<open>
  C10. Whenever \<open>generateToken\<close> creates a token, the row it adds has an expiry, equal to
  the time of the call plus the lifetime in seconds (\<open>expiresIn\<close>, or the configured
  default when \<open>expiresIn\<close> is omitted or zero), and the result reports that expiry; no
  row it creates is without one. It does create a token when the database works and the
  secret is new. The default lifetime of the configuration schema is 3600 seconds.
\<close>

theorem generateToken_always_expires:
  "(\<forall>r db'. generateToken c fl t secret options db = (Inr r, db') \<longrightarrow>
      (\<exists>row. upload_tokens db' = upload_tokens db @ [row] \<and> token row = secret
             \<and> expires_at row = Some (t + expiry_seconds c options * 1000)
             \<and> expiresAt r = expires_at row))
   \<and> (\<not> fl \<and> (\<forall>r \<in> set (upload_tokens db). token r \<noteq> secret) \<longrightarrow>
        (\<exists>r db'. generateToken c fl t secret options db = (Inr r, db')))
   \<and> TOKEN_DEFAULT_EXPIRY default_config = 3600"
proof (intro conjI allI impI)
  fix r db'
  assume g: "generateToken c fl t secret options db = (Inr r, db')"
  then obtain created where
    tc: "token_create fl t
           \<lparr>in_token = secret,
            in_allowed_category =
              Some (case opt_category options of None \<Rightarrow> Any_category | Some c \<Rightarrow> c),
            in_max_file_size = maxFileSize options,
            in_max_uses = Some (if truthy_nat (maxUses options) then the (maxUses options) else 1),
            in_created_by = createdBy options,
            in_metadata = opt_metadata options,
            in_expires_at = Some (t + expiry_seconds c options * 1000)\<rparr> db = (Inr created, db')"
    and r: "expiresAt r = expires_at created"
    by (auto simp: generateToken_def Let_def truthy_expiry split: prod.splits sum.splits)
  from token_create_result [OF tc] r
  show "\<exists>row. upload_tokens db' = upload_tokens db @ [row] \<and> token row = secret
             \<and> expires_at row = Some (t + expiry_seconds c options * 1000)
             \<and> expiresAt r = expires_at row"
    by auto
next
  assume a: "\<not> fl \<and> (\<forall>r \<in> set (upload_tokens db). token r \<noteq> secret)"
  then obtain created db' where
    "token_create fl t
           \<lparr>in_token = secret,
            in_allowed_category =
              Some (case opt_category options of None \<Rightarrow> Any_category | Some c \<Rightarrow> c),
            in_max_file_size = maxFileSize options,
            in_max_uses = Some (if truthy_nat (maxUses options) then the (maxUses options) else 1),
            in_created_by = createdBy options,
            in_metadata = opt_metadata options,
            in_expires_at = Some (t + expiry_seconds c options * 1000)\<rparr> db = (Inr created, db')"
    using token_create_succeeds [of fl db _ t] by fastforce
  then show "\<exists>r db'. generateToken c fl t secret options db = (Inr r, db')"
    by (simp add: generateToken_def Let_def truthy_expiry)
next
  show "TOKEN_DEFAULT_EXPIRY default_config = 3600" by (simp add: default_config_def)
qed

theorem generateToken_always_expires_witness:
  "token sample_token \<noteq> ''beef''
   \<and> generateToken default_config False 1000 ''beef'' no_options (tokens sample_world)
     = (Inr \<lparr>res_token = ''beef'', expiresAt = Some 3601000, res_category = Any_category,
             res_maxFileSize = None, res_maxUses = 1\<rparr>,
        \<lparr>upload_tokens = [sample_token, sample_token\<lparr>tok_id := 2, token := ''beef''\<rparr>],
         token_usage_log = []\<rparr>)
   \<and> (\<exists>row. [sample_token, sample_token\<lparr>tok_id := 2, token := ''beef''\<rparr>]
              = upload_tokens (tokens sample_world) @ [row] \<and> token row = ''beef''
            \<and> expires_at row = Some (1000 + expiry_seconds default_config no_options * 1000))"
proof -
  have n: "token sample_token \<noteq> ''beef''" by code_simp
  have g: "generateToken default_config False 1000 ''beef'' no_options (tokens sample_world)
     = (Inr \<lparr>res_token = ''beef'', expiresAt = Some 3601000, res_category = Any_category,
             res_maxFileSize = None, res_maxUses = 1\<rparr>,
        \<lparr>upload_tokens = [sample_token, sample_token\<lparr>tok_id := 2, token := ''beef''\<rparr>],
         token_usage_log = []\<rparr>)"
    by code_simp
  from generateToken_always_expires
         [of default_config False 1000 "''beef''" no_options "tokens sample_world"] g n
  show ?thesis by auto
qed

section \<open>Content validation\<close>

lemma validateFile_valid_iff:
  "valid (validateFile e d filePath cat declaredMime options)
     \<longleftrightarrow> errors (validateFile e d filePath cat declaredMime options) = []"
proof (cases "d filePath")
  case None
  then show ?thesis by (simp add: validateFile_def)
next
  case (Some content)
  show ?thesis
  proof (cases "enableMalwareScan options = Some False")
    case True
    with Some show ?thesis by (simp add: validateFile_def Let_def)
  next
    case False
    with Some show ?thesis
      by (cases "scanFile e filePath content cat") (simp_all add: validateFile_def Let_def)
  qed
qed






section \<open>The upload pipeline: storage\<close>

lemma category_name_nonempty: "category_name cat \<noteq> []"
  by (cases cat) (simp_all add: category_name_def)

lemma baseDir_absolute: "isAbsolute (cwd e) \<Longrightarrow> isAbsolute (baseDir e)"
  by (simp add: baseDir_def resolve_is_absolute)

lemma saveStream_path:
  "isAbsolute (cwd e) \<Longrightarrow>
   path_join [path_join [baseDir e, ''raw'', category_name cat], stored] = raw_path e cat stored"
  by (simp add: raw_path_def join_nested baseDir_absolute category_name_nonempty)

lemma saveStream_result:
  assumes "isAbsolute (cwd e)"
    and "saveStream e io uuid content name cat d = (Inr r, d')"
  shows "getFilePath e (storedFilename r) cat = Inr (raw_path e cat (storedFilename r))
         \<and> d' = d(raw_path e cat (storedFilename r) \<mapsto> content)"
  using assms(2)
  by (auto simp: saveStream_def Let_def saveStream_path [OF assms(1)] getFilePath_def
                 raw_path_def [symmetric]
           split: if_splits)

lemma saveStream_fields:
  assumes "saveStream e io uuid content name cat d = (Inr r, d')"
  shows "storedFilename r = generateUniqueFilename uuid name
         \<and> fileSize r = int (length content) \<and> fileHash r = sha256 e content"
  using assms by (auto simp: saveStream_def Let_def split: if_splits)

lemma deleteFile_disk:
  assumes "getFilePath e stored cat = Inr p"
  shows "snd (deleteFile e throws stored cat d) = (if throws then d else d(p := None))"
  using assms by (auto simp: deleteFile_def split: option.splits)

lemma deleteFile_idempotent:
  "deleteFile e throws stored cat (snd (deleteFile e False stored cat d))
     = (False, snd (deleteFile e False stored cat d))"
  by (auto simp: deleteFile_def split: sum.splits option.splits)

lemma deleteFile_missing:
  "(\<forall>p. getFilePath e stored cat = Inr p \<longrightarrow> d p = None) \<Longrightarrow>
     deleteFile e throws stored cat d = (False, d)"
  by (auto simp: deleteFile_def split: sum.splits option.splits)

lemma deleteFile_unlink_throws: "deleteFile e True stored cat d = (False, d)"
  by (auto simp: deleteFile_def split: sum.splits option.splits)

lemma file_create_cases:
  "(\<exists>err. file_create fl rf t input rows = (Inl err, rows))
   \<or> (\<exists>err row. file_create fl rf t input rows = (Inl err, rows @ [row]))
   \<or> (\<exists>row. file_create fl rf t input rows = (Inr row, rows @ [row])
         \<and> file_id row = ci_id input \<and> file_size row = ci_file_size input
         \<and> hash_sha256 row = ci_hash_sha256 input
         \<and> stored_filename row = ci_stored_filename input
         \<and> validation_status row = Pending \<and> \<not> is_validated row
         \<and> (\<forall>r \<in> set rows. file_id r \<noteq> file_id row \<and> hash_sha256 r \<noteq> hash_sha256 row))"
proof (cases "fl \<or> (\<exists>r \<in> set rows. file_id r = ci_id input
                \<or> stored_filename r = ci_stored_filename input
                \<or> hash_sha256 r = ci_hash_sha256 input)")
  case True
  then show ?thesis by (auto simp: file_create_def)
next
  case False
  then have "find (\<lambda>r. file_id r = ci_id input) (rows @ [x]) = Some x"
    if "file_id x = ci_id input" for x
    using that by (intro find_appended) auto
  with False show ?thesis
    by (cases rf) (auto simp: file_create_def Let_def file_findById_def)
qed

lemma file_create_Inr:
  assumes "file_create fl rf t input rows = (Inr row, rows')"
  shows "rows' = rows @ [row] \<and> file_id row = ci_id input \<and> file_size row = ci_file_size input
         \<and> hash_sha256 row = ci_hash_sha256 input
         \<and> stored_filename row = ci_stored_filename input
         \<and> validation_status row = Pending \<and> \<not> is_validated row
         \<and> (\<forall>r \<in> set rows. file_id r \<noteq> file_id row \<and> hash_sha256 r \<noteq> hash_sha256 row)"
  using assms file_create_cases [of fl rf t input rows] by auto

lemma findByHash_Some:
  "findByHash rows h = Some r \<Longrightarrow>
     r \<in> set rows \<and> hash_sha256 r = h \<and> is_validated r \<and> validation_status r = Safe"
  unfolding findByHash_def by (induction rows) (auto split: if_splits)

lemma file_update_ids: "map file_id (file_update t i input rows) = map file_id rows"
  by (induction rows) (auto simp: file_update_def apply_update_def)

lemma upload_try_tokens: "tokens (snd (upload_try e rq f tk cat tmp w)) = tokens w"
  by (simp add: upload_try_def Let_def split: option.splits sum.splits prod.splits)

lemma upload_try_tokensD:
  "upload_try e rq f tk cat tmp w = (res, w') \<Longrightarrow> tokens w' = tokens w"
  using upload_try_tokens [of e rq f tk cat tmp w] by simp

lemma handleUpload_tokens: "tokens (snd (handleUpload e rq f tk w)) = tokens w"
  by (auto simp: handleUpload_def Let_def split: prod.splits sum.splits dest: upload_try_tokensD)

lemma upload_try_error_storage:
  assumes "getFilePath e (storedFilename tmp) cat = Inr p"
    and "upload_try e rq f tk cat tmp w = (Inl err, w')"
  shows "storage w' = storage w
         \<or> \<not> unlink_fails (failing rq) \<and> storage w' = (storage w)(p := None)"
  using assms
  by (auto simp: upload_try_def Let_def deleteFile_disk
           split: if_splits option.splits sum.splits prod.splits)

lemma upload_try_dedup:
  assumes "getFilePath e (storedFilename tmp) cat = Inr p"
    and "\<not> fileSize tmp > upload_maxSize tk cat"
    and "\<not> findByHash_fails (failing rq)"
    and "findByHash (files w) (fileHash tmp) = Some existing"
  shows "upload_try e rq f tk cat tmp w =
           (Inr existing,
            w\<lparr>storage := (if unlink_fails (failing rq) then storage w
                           else (storage w)(p := None))\<rparr>)"
  using assms by (simp add: upload_try_def deleteFile_disk)

lemma upload_try_created:
  assumes "getFilePath e (storedFilename tmp) cat = Inr p"
    and "upload_try e rq f tk cat tmp w = (Inr fm, w')"
    and "findByHash (files w) (fileHash tmp) = None"
  shows "storage w' = storage w
         \<and> \<not> fileSize tmp > upload_maxSize tk cat
         \<and> valid (validateFile e (storage w) p cat (mp_mimetype f) (pipeline_options e cat))
         \<and> file_id fm = record_uuid rq \<and> file_size fm = fileSize tmp
         \<and> hash_sha256 fm = fileHash tmp \<and> stored_filename fm = storedFilename tmp
         \<and> (\<forall>r \<in> set (files w). file_id r \<noteq> file_id fm)
         \<and> map file_id (files w') = map file_id (files w) @ [file_id fm]"
  using assms
  by (auto simp: upload_try_def Let_def pipeline_options_def file_update_ids
           split: if_splits option.splits sum.splits prod.splits dest!: file_create_Inr)

lemma upload_try_Inr_dedup:
  assumes "upload_try e rq f tk cat tmp w = (Inr fm, w')"
    and "findByHash (files w) (fileHash tmp) = Some existing"
  shows "fm = existing \<and> files w' = files w"
  using assms
  by (auto simp: upload_try_def Let_def split: if_splits option.splits sum.splits prod.splits)

lemma handleUpload_after_save:
  assumes "category_permitted tk (upload_category f)"
    and "saveStream e (save_fails (failing rq)) (stored_uuid rq) (mp_file f) (mp_filename f)
           (upload_category f) (storage w) = (Inr tmp, d1)"
  shows "handleUpload e rq f tk w =
           (case upload_try e rq f tk (upload_category f) tmp (w\<lparr>storage := d1\<rparr>) of
              (Inl err, w') \<Rightarrow>
                (Inl err,
                 w'\<lparr>storage :=
                      snd (deleteFile e (unlink_fails (failing rq)) (storedFilename tmp)
                             (upload_category f) (storage w'))\<rparr>)
            | (Inr fm, w') \<Rightarrow> (Inr fm, w'))"
  using assms by (auto simp: handleUpload_def Let_def category_permitted_def)

lemma handleUpload_rejects_category:
  assumes "\<not> category_permitted tk (upload_category f)"
  shows "handleUpload e rq f tk w =
           (Inl (CDNError ''FILE_CATEGORY_MISMATCH'' 403 (Detail ''Token category'')), w)"
  using assms by (auto simp: handleUpload_def Let_def category_permitted_def)

lemma handleUpload_storage:
  assumes abs: "isAbsolute (cwd e)"
    and perm: "category_permitted tk (upload_category f)"
    and save: "saveStream e (save_fails (failing rq)) (stored_uuid rq) (mp_file f) (mp_filename f)
           (upload_category f) (storage w) = (Inr tmp, d1)"
    and run: "handleUpload e rq f tk w = (res, w')"
  shows "storage w' =
           (if (\<exists>fm. res = Inr fm) \<and> findByHash (files w) (fileHash tmp) = None
               \<or> unlink_fails (failing rq)
            then (storage w)(raw_path e (upload_category f) (storedFilename tmp) \<mapsto> mp_file f)
            else (storage w)(raw_path e (upload_category f) (storedFilename tmp) := None))"
proof -
  define cat where "cat = upload_category f"
  define p where "p = raw_path e cat (storedFilename tmp)"
  from saveStream_result [OF abs save]
  have gp: "getFilePath e (storedFilename tmp) cat = Inr p"
    and d1: "d1 = (storage w)(p \<mapsto> mp_file f)"
    by (simp_all add: cat_def p_def)
  obtain r2 w2 where ut: "upload_try e rq f tk cat tmp (w\<lparr>storage := d1\<rparr>) = (r2, w2)"
    by (cases "upload_try e rq f tk cat tmp (w\<lparr>storage := d1\<rparr>)")
  show ?thesis
  proof (cases r2)
    case (Inl err)
    with ut upload_try_error_storage [OF gp, of rq f tk "w\<lparr>storage := d1\<rparr>" err w2]
    have s2: "storage w2 = d1 \<or> \<not> unlink_fails (failing rq) \<and> storage w2 = d1(p := None)"
      by simp
    then have "(storage w2)(p := None) = (storage w)(p := None)" using d1 by auto
    moreover from s2 have "unlink_fails (failing rq) \<Longrightarrow> storage w2 = (storage w)(p \<mapsto> mp_file f)"
      using d1 by auto
    ultimately show ?thesis
      using Inl ut run handleUpload_after_save [OF perm save] gp
      by (auto simp: cat_def [symmetric] p_def [symmetric] deleteFile_disk)
  next
    case (Inr fm)
    with ut run handleUpload_after_save [OF perm save]
    have res: "res = Inr fm" and w': "w' = w2" by (simp_all add: cat_def [symmetric])
    show ?thesis
    proof (cases "findByHash (files w) (fileHash tmp)")
      case None
      with upload_try_created [OF gp, of rq f tk "w\<lparr>storage := d1\<rparr>" fm w2] ut Inr
      have "storage w2 = d1" by simp
      with None res w' d1 show ?thesis by (simp add: cat_def [symmetric] p_def [symmetric])
    next
      case (Some existing)
      have "storage w2 = (if unlink_fails (failing rq) then d1 else d1(p := None))"
        using ut Inr Some gp
        by (auto simp: upload_try_def Let_def deleteFile_disk split: if_splits)
      with Some res w' d1 show ?thesis by (simp add: cat_def [symmetric] p_def [symmetric])
    qed
  qed
qed

lemma handleUpload_storage':
  assumes abs: "isAbsolute (cwd e)"
    and perm: "category_permitted tk (upload_category f)"
    and save: "fst (saveStream e (save_fails (failing rq)) (stored_uuid rq) (mp_file f)
                  (mp_filename f) (upload_category f) (storage w)) = Inr tmp"
  shows "storage (snd (handleUpload e rq f tk w)) =
           (if (\<exists>fm. fst (handleUpload e rq f tk w) = Inr fm)
               \<and> findByHash (files w) (fileHash tmp) = None
               \<or> unlink_fails (failing rq)
            then (storage w)(raw_path e (upload_category f) (storedFilename tmp) \<mapsto> mp_file f)
            else (storage w)(raw_path e (upload_category f) (storedFilename tmp) := None))"
  using handleUpload_storage [OF abs perm, of rq w tmp _ "fst (handleUpload e rq f tk w)"
                                "snd (handleUpload e rq f tk w)"] save
  by (metis prod.collapse)

lemma handleUpload_dedup:
  assumes abs: "isAbsolute (cwd e)"
    and perm: "category_permitted tk (upload_category f)"
    and save: "fst (saveStream e (save_fails (failing rq)) (stored_uuid rq) (mp_file f)
                  (mp_filename f) (upload_category f) (storage w)) = Inr tmp"
    and size: "\<not> fileSize tmp > upload_maxSize tk (upload_category f)"
    and nofault: "\<not> findByHash_fails (failing rq)"
    and dup: "findByHash (files w) (fileHash tmp) = Some existing"
  shows "handleUpload e rq f tk w =
           (Inr existing,
            w\<lparr>storage :=
                 (if unlink_fails (failing rq)
                  then (storage w)(raw_path e (upload_category f) (storedFilename tmp) \<mapsto> mp_file f)
                  else (storage w)(raw_path e (upload_category f) (storedFilename tmp) := None))\<rparr>)"
proof -
  define cat where "cat = upload_category f"
  obtain d1 where save': "saveStream e (save_fails (failing rq)) (stored_uuid rq) (mp_file f)
                 (mp_filename f) cat (storage w) = (Inr tmp, d1)"
    using save unfolding cat_def by (metis prod.collapse)
  define p where "p = raw_path e cat (storedFilename tmp)"
  from saveStream_result [OF abs save'] have gp: "getFilePath e (storedFilename tmp) cat = Inr p"
    and d1: "d1 = (storage w)(p \<mapsto> mp_file f)" by (simp_all add: p_def)
  have "upload_try e rq f tk cat tmp (w\<lparr>storage := d1\<rparr>)
          = (Inr existing,
             w\<lparr>storage := (if unlink_fails (failing rq) then d1 else d1(p := None))\<rparr>)"
    using upload_try_dedup [OF gp, of tk rq "w\<lparr>storage := d1\<rparr>" existing f] size nofault dup
    by (simp add: cat_def)
  then show ?thesis
    using handleUpload_after_save [OF perm save' [unfolded cat_def]] d1
    by (simp add: cat_def [symmetric] p_def [symmetric])
qed

text \<open>
  When the \<open>unlink\<close> throws, \<open>deleteFile\<close> swallows the error: \<open>handleUpload\<close> ends with
  the same error or record as it would otherwise, and the file that \<open>saveStream\<close> wrote
  stays on disk.
\<close>

lemma upload_try_unlink_fault:
  "fst (upload_try e (rq\<lparr>failing := (failing rq)\<lparr>unlink_fails := b\<rparr>\<rparr>) f tk cat tmp w)
     = fst (upload_try e rq f tk cat tmp w)"
  by (simp add: upload_try_def Let_def split: option.splits sum.splits prod.splits)

lemma unlink_failure_keeps_result:
  "fst (handleUpload e (rq\<lparr>failing := (failing rq)\<lparr>unlink_fails := b\<rparr>\<rparr>) f tk w)
     = fst (handleUpload e rq f tk w)"
proof -
  let ?rq = "rq\<lparr>failing := (failing rq)\<lparr>unlink_fails := b\<rparr>\<rparr>"
  have "fst (case upload_try e ?rq f tk cat tmp w1 of
               (Inl err, w') \<Rightarrow> (Inl err, g w')
             | (Inr fm, w') \<Rightarrow> (Inr fm, w'))
          = fst (upload_try e ?rq f tk cat tmp w1)" for cat tmp w1 g
    by (auto split: prod.splits sum.splits)
  moreover have "fst (case upload_try e rq f tk cat tmp w1 of
               (Inl err, w') \<Rightarrow> (Inl err, g w')
             | (Inr fm, w') \<Rightarrow> (Inr fm, w'))
          = fst (upload_try e rq f tk cat tmp w1)" for cat tmp w1 g
    by (auto split: prod.splits sum.splits)
  ultimately show ?thesis
    by (simp add: handleUpload_def Let_def upload_try_unlink_fault split: prod.splits sum.splits)
qed

lemma failed_unlink_leaves_file:
  assumes "isAbsolute (cwd e)" and "category_permitted tk (upload_category f)"
    and "fst (saveStream e (save_fails (failing rq)) (stored_uuid rq) (mp_file f) (mp_filename f)
                (upload_category f) (storage w)) = Inr tmp"
    and "unlink_fails (failing rq)"
  shows "storage (snd (handleUpload e rq f tk w))
           (raw_path e (upload_category f) (storedFilename tmp)) = Some (mp_file f)"
  using handleUpload_storage' [OF assms(1-3)] assms(4) by simp

text \<open>
  C5. When \<open>saveStream\<close> has written the file and \<open>handleUpload\<close> then ends with an error
  (size check, validation failure, failure of a database call) or with the record of a
  duplicate, the state it leaves has no file at the path just written, and every other
  path is as before. The hypotheses: the working directory of the process is absolute,
  as it always is, and the \<open>unlink\<close> of the file does not throw (when it does, the
  error is swallowed and the file stays). \<open>deleteFile\<close> never throws; on a file
  that is not there it returns \<open>false\<close> and changes nothing, so deleting again after a
  delete is harmless.
\<close>

theorem rejected_upload_leaves_no_file:
  "(isAbsolute (cwd e) \<and> category_permitted tk (upload_category f)
      \<and> fst (saveStream e (save_fails (failing rq)) (stored_uuid rq) (mp_file f) (mp_filename f)
                (upload_category f) (storage w)) = Inr tmp
      \<and> ((\<exists>err. fst (handleUpload e rq f tk w) = Inl err)
           \<or> findByHash (files w) (fileHash tmp) \<noteq> None)
      \<and> \<not> unlink_fails (failing rq)
    \<longrightarrow> storage (snd (handleUpload e rq f tk w))
          (raw_path e (upload_category f) (storedFilename tmp)) = None
        \<and> (\<forall>q. q \<noteq> raw_path e (upload_category f) (storedFilename tmp) \<longrightarrow>
               storage (snd (handleUpload e rq f tk w)) q = storage w q))
   \<and> deleteFile e throws stored cat (snd (deleteFile e False stored cat d))
       = (False, snd (deleteFile e False stored cat d))
   \<and> ((\<forall>p. getFilePath e stored cat = Inr p \<longrightarrow> d p = None) \<longrightarrow>
        deleteFile e throws stored cat d = (False, d))"
proof (intro conjI impI)
  assume a: "isAbsolute (cwd e) \<and> category_permitted tk (upload_category f)
      \<and> fst (saveStream e (save_fails (failing rq)) (stored_uuid rq) (mp_file f) (mp_filename f)
                (upload_category f) (storage w)) = Inr tmp
      \<and> ((\<exists>err. fst (handleUpload e rq f tk w) = Inl err)
           \<or> findByHash (files w) (fileHash tmp) \<noteq> None)
      \<and> \<not> unlink_fails (failing rq)"
  then have "storage (snd (handleUpload e rq f tk w)) =
               (storage w)(raw_path e (upload_category f) (storedFilename tmp) := None)"
    using handleUpload_storage' [of e tk f rq w tmp] by auto
  then show "storage (snd (handleUpload e rq f tk w))
               (raw_path e (upload_category f) (storedFilename tmp)) = None"
    and "\<forall>q. q \<noteq> raw_path e (upload_category f) (storedFilename tmp) \<longrightarrow>
               storage (snd (handleUpload e rq f tk w)) q = storage w q"
    by simp_all
next
  show "deleteFile e throws stored cat (snd (deleteFile e False stored cat d))
          = (False, snd (deleteFile e False stored cat d))"
    by (rule deleteFile_idempotent)
next
  assume "\<forall>p. getFilePath e stored cat = Inr p \<longrightarrow> d p = None"
  then show "deleteFile e throws stored cat d = (False, d)" by (rule deleteFile_missing)
qed

theorem rejected_upload_leaves_no_file_witness:
  "isAbsolute (cwd sample_env) \<and> category_permitted sample_token (upload_category malicious_upload)
   \<and> fst (saveStream sample_env False ''u1'' ''MZ-program'' ''evil.png'' Cat_image
             (storage sample_world)) = Inr saved_malicious
   \<and> snd (saveStream sample_env False ''u1'' ''MZ-program'' ''evil.png'' Cat_image
             (storage sample_world)) ''/srv/uploads/raw/image/u1.png'' = Some ''MZ-program''
   \<and> fst (handleUpload sample_env (sample_request ''evil.png'' ''MZ-program'' ''u1'' ''r1'' 2000)
             malicious_upload sample_token sample_world)
       = Inl (CDNError ''SECURITY_VALIDATION_FAILED'' 400
                (Detail_errors [Security_failed ''executable header'']))
   \<and> \<not> unlink_fails (failing (sample_request ''evil.png'' ''MZ-program'' ''u1'' ''r1'' 2000))
   \<and> storage (snd (handleUpload sample_env
                      (sample_request ''evil.png'' ''MZ-program'' ''u1'' ''r1'' 2000)
                      malicious_upload sample_token sample_world))
        ''/srv/uploads/raw/image/u1.png'' = None"
proof -
  let ?rq = "sample_request ''evil.png'' ''MZ-program'' ''u1'' ''r1'' 2000"
  have c: "upload_category malicious_upload = Cat_image"
    and m: "mp_file malicious_upload = ''MZ-program''" "mp_filename malicious_upload = ''evil.png''"
    and r: "save_fails (failing ?rq) = False" "stored_uuid ?rq = ''u1''"
      "unlink_fails (failing ?rq) = False"
    and p: "raw_path sample_env Cat_image (storedFilename saved_malicious)
              = ''/srv/uploads/raw/image/u1.png''"
    by code_simp+
  have h1: "isAbsolute (cwd sample_env) \<and> category_permitted sample_token (upload_category malicious_upload)"
    by code_simp
  have h2: "fst (saveStream sample_env False ''u1'' ''MZ-program'' ''evil.png'' Cat_image
             (storage sample_world)) = Inr saved_malicious"
    by code_simp
  have h3: "snd (saveStream sample_env False ''u1'' ''MZ-program'' ''evil.png'' Cat_image
             (storage sample_world)) ''/srv/uploads/raw/image/u1.png'' = Some ''MZ-program''"
    by code_simp
  have h4: "fst (handleUpload sample_env ?rq malicious_upload sample_token sample_world)
       = Inl (CDNError ''SECURITY_VALIDATION_FAILED'' 400
                (Detail_errors [Security_failed ''executable header'']))"
    by code_simp
  from rejected_upload_leaves_no_file
         [of sample_env sample_token malicious_upload ?rq sample_world saved_malicious]
       h1 h2 h3 h4 c m r p
  show ?thesis by simp
qed

section \<open>The upload pipeline: size limits\<close>

lemma size_checks_iff:
  assumes "d p = Some content"
  shows "(\<not> int (length content) > upload_maxSize tk cat \<and> validateFileSize d p cat = None)
         \<longleftrightarrow> int (length content) \<le> effective_max tk cat"
  using assms
  by (auto simp: upload_maxSize_def validateFileSize_def effective_max_def getMaxSize_def
                 truthy_int_def Let_def split: option.splits)

lemma validateFileSize_reason:
  assumes "d p = Some content" and "validateFileSize d p cat = Some err"
  shows "err = Size_exceeded (int (length content)) (getMaxSize cat) cat
         \<and> int (length content) > getMaxSize cat"
  using assms by (auto simp: validateFileSize_def getMaxSize_def Let_def split: if_splits)

lemma validateFile_size_error:
  assumes "d p = Some content" and "validateFileSize d p cat = Some err"
  shows "err \<in> set (errors (validateFile e d p cat declaredMime options))"
proof (cases "enableMalwareScan options = Some False")
  case True
  with assms show ?thesis by (simp add: validateFile_def Let_def opt_list_def)
next
  case False
  with assms show ?thesis
    by (cases "scanFile e p content cat") (simp_all add: validateFile_def Let_def opt_list_def)
qed

lemma validateFile_valid_size:
  assumes "d p = Some content" and "valid (validateFile e d p cat declaredMime options)"
  shows "validateFileSize d p cat = None"
proof (cases "validateFileSize d p cat")
  case None
  then show ?thesis .
next
  case (Some err)
  from validateFile_size_error [of d p content cat err e declaredMime options] assms Some
  show ?thesis by (auto simp: validateFile_valid_iff)
qed

lemma handleUpload_Inr_saved:
  assumes "fst (handleUpload e rq f tk w) = Inr fm"
  shows "category_permitted tk (upload_category f)
         \<and> (\<exists>tmp. fst (saveStream e (save_fails (failing rq)) (stored_uuid rq) (mp_file f)
                         (mp_filename f) (upload_category f) (storage w)) = Inr tmp)"
  using assms
  by (auto simp: handleUpload_def Let_def category_permitted_def split: prod.splits sum.splits if_splits)

lemma handleUpload_created:
  assumes abs: "isAbsolute (cwd e)"
    and run: "fst (handleUpload e rq f tk w) = Inr fm"
    and new: "findByHash (files w) (sha256 e (mp_file f)) = None"
  shows "\<not> int (length (mp_file f)) > upload_maxSize tk (upload_category f)
         \<and> int (length (mp_file f)) \<le> getMaxSize (upload_category f)
         \<and> file_size fm = int (length (mp_file f))
         \<and> file_id fm = record_uuid rq
         \<and> (\<forall>r \<in> set (files w). file_id r \<noteq> file_id fm)
         \<and> map file_id (files (snd (handleUpload e rq f tk w))) = map file_id (files w) @ [file_id fm]"
proof -
  define cat where "cat = upload_category f"
  from handleUpload_Inr_saved [OF run] obtain tmp d1 where
    perm: "category_permitted tk cat"
    and save: "saveStream e (save_fails (failing rq)) (stored_uuid rq) (mp_file f) (mp_filename f)
                 cat (storage w) = (Inr tmp, d1)"
    unfolding cat_def by (metis prod.collapse)
  define p where "p = raw_path e cat (storedFilename tmp)"
  from saveStream_result [OF abs save] have gp: "getFilePath e (storedFilename tmp) cat = Inr p"
    and d1: "d1 = (storage w)(p \<mapsto> mp_file f)" by (simp_all add: p_def)
  from saveStream_fields [OF save] have sz: "fileSize tmp = int (length (mp_file f))"
    and h: "fileHash tmp = sha256 e (mp_file f)" by simp_all
  obtain w2 where ut: "upload_try e rq f tk cat tmp (w\<lparr>storage := d1\<rparr>) = (Inr fm, w2)"
    and w2: "snd (handleUpload e rq f tk w) = w2"
    using run handleUpload_after_save [OF perm [unfolded cat_def] save [unfolded cat_def]]
    by (auto simp: cat_def split: prod.splits sum.splits)
  from upload_try_created [OF gp ut] new h
  have c: "\<not> fileSize tmp > upload_maxSize tk cat"
    "valid (validateFile e d1 p cat (mp_mimetype f) (pipeline_options e cat))"
    "file_id fm = record_uuid rq" "file_size fm = fileSize tmp"
    "\<forall>r \<in> set (files w). file_id r \<noteq> file_id fm"
    "map file_id (files w2) = map file_id (files w) @ [file_id fm]"
    by auto
  have "d1 p = Some (mp_file f)" using d1 by simp
  from validateFile_valid_size [of d1 p "mp_file f" e cat "mp_mimetype f" "pipeline_options e cat"] c(2) this
  have "int (length (mp_file f)) \<le> getMaxSize cat"
    by (auto simp: validateFileSize_def getMaxSize_def Let_def split: if_splits)
  with c sz w2 show ?thesis by (simp add: cat_def)
qed

lemma handleUpload_oversize:
  assumes abs: "isAbsolute (cwd e)"
    and perm: "category_permitted tk (upload_category f)"
    and save: "fst (saveStream e (save_fails (failing rq)) (stored_uuid rq) (mp_file f)
                  (mp_filename f) (upload_category f) (storage w)) = Inr tmp"
    and big: "int (length (mp_file f)) > effective_max tk (upload_category f)"
    and nofault: "\<not> findByHash_fails (failing rq)"
    and new: "findByHash (files w) (fileHash tmp) = None"
  shows "fst (handleUpload e rq f tk w)
           = Inl (CDNError ''FILE_TOO_LARGE'' 400 (Detail ''File size exceeds limit''))
         \<or> (\<exists>es. fst (handleUpload e rq f tk w)
                    = Inl (CDNError ''SECURITY_VALIDATION_FAILED'' 400 (Detail_errors es))
                \<and> Size_exceeded (int (length (mp_file f))) (getMaxSize (upload_category f))
                     (upload_category f) \<in> set es)"
proof -
  define cat where "cat = upload_category f"
  obtain d1 where save': "saveStream e (save_fails (failing rq)) (stored_uuid rq) (mp_file f)
                 (mp_filename f) cat (storage w) = (Inr tmp, d1)"
    using save unfolding cat_def by (metis prod.collapse)
  define p where "p = raw_path e cat (storedFilename tmp)"
  from saveStream_result [OF abs save'] have gp: "getFilePath e (storedFilename tmp) cat = Inr p"
    and d1: "d1 = (storage w)(p \<mapsto> mp_file f)" by (simp_all add: p_def)
  from saveStream_fields [OF save'] have sz: "fileSize tmp = int (length (mp_file f))" by simp
  note unfold = handleUpload_after_save [OF perm save' [unfolded cat_def], folded cat_def]
  show ?thesis
  proof (cases "fileSize tmp > upload_maxSize tk cat")
    case True
    then show ?thesis using unfold by (simp add: upload_try_def)
  next
    case False
    with big sz have over: "int (length (mp_file f)) > getMaxSize cat"
      by (auto simp: effective_max_def upload_maxSize_def truthy_int_def cat_def
               split: option.splits if_splits)
    have dp: "d1 p = Some (mp_file f)" using d1 by simp
    then have vs: "validateFileSize d1 p cat
                     = Some (Size_exceeded (int (length (mp_file f))) (getMaxSize cat) cat)"
      using over by (simp add: validateFileSize_def getMaxSize_def Let_def)
    define v where "v = validateFile e d1 p cat (mp_mimetype f) (pipeline_options e cat)"
    from validateFile_size_error [of d1 p "mp_file f" cat _ e "mp_mimetype f" "pipeline_options e cat"] dp vs
    have mem: "Size_exceeded (int (length (mp_file f))) (getMaxSize cat) cat \<in> set (errors v)"
      by (simp add: v_def)
    then have nv: "\<not> valid v" by (auto simp: v_def validateFile_valid_iff)
    have "fst (upload_try e rq f tk cat tmp (w\<lparr>storage := d1\<rparr>))
            = Inl (CDNError ''SECURITY_VALIDATION_FAILED'' 400 (Detail_errors (errors v)))"
      using False nofault new gp nv
      by (simp add: upload_try_def Let_def v_def pipeline_options_def)
    then have "fst (handleUpload e rq f tk w)
            = Inl (CDNError ''SECURITY_VALIDATION_FAILED'' 400 (Detail_errors (errors v)))"
      using unfold by (auto split: prod.splits sum.splits)
    with mem show ?thesis by (auto simp: cat_def)
  qed
qed

lemma handleUpload_too_large:
  assumes perm: "category_permitted tk (upload_category f)"
    and save: "fst (saveStream e (save_fails (failing rq)) (stored_uuid rq) (mp_file f)
                  (mp_filename f) (upload_category f) (storage w)) = Inr tmp"
    and big: "int (length (mp_file f)) > upload_maxSize tk (upload_category f)"
  shows "fst (handleUpload e rq f tk w)
           = Inl (CDNError ''FILE_TOO_LARGE'' 400 (Detail ''File size exceeds limit''))"
proof -
  obtain d1 where save': "saveStream e (save_fails (failing rq)) (stored_uuid rq) (mp_file f)
                 (mp_filename f) (upload_category f) (storage w) = (Inr tmp, d1)"
    using save by (metis prod.collapse)
  from saveStream_fields [OF save'] have "fileSize tmp = int (length (mp_file f))" by simp
  with big show ?thesis
    using handleUpload_after_save [OF perm save'] by (simp add: upload_try_def)
qed

lemma handleUpload_duplicate_size:
  assumes abs: "isAbsolute (cwd e)"
    and perm: "category_permitted tk (upload_category f)"
    and save: "fst (saveStream e (save_fails (failing rq)) (stored_uuid rq) (mp_file f)
                  (mp_filename f) (upload_category f) (storage w)) = Inr tmp"
    and size: "int (length (mp_file f)) \<le> upload_maxSize tk (upload_category f)"
    and nofault: "\<not> findByHash_fails (failing rq)"
    and dup: "findByHash (files w) (fileHash tmp) = Some existing"
  shows "fst (handleUpload e rq f tk w) = Inr existing"
proof -
  obtain d1 where save': "saveStream e (save_fails (failing rq)) (stored_uuid rq) (mp_file f)
                 (mp_filename f) (upload_category f) (storage w) = (Inr tmp, d1)"
    using save by (metis prod.collapse)
  from saveStream_fields [OF save'] size
  have "\<not> fileSize tmp > upload_maxSize tk (upload_category f)" by simp
  from handleUpload_dedup [OF abs perm save this nofault dup] show ?thesis by simp
qed

lemma saveStream_content:
  assumes "fst (saveStream e io uuid [] name cat d) = Inr r"
  shows "fst (saveStream e io uuid content name cat d)
           = Inr (r\<lparr>fileHash := sha256 e content, fileSize := int (length content)\<rparr>)"
  using assms by (auto simp: saveStream_def Let_def split: if_splits)

lemma upload_category_png: "upload_category (png_upload content) = Cat_image"
proof -
  have "upload_category (png_upload content) = upload_category (png_upload [])"
    by (simp add: upload_category_def png_upload_def)
  also have "\<dots> = Cat_image" by code_simp
  finally show ?thesis .
qed

text \<open>
  C7, as the claim states it, fails: the check against the limit of the category is part
  of \<open>validateFile\<close>, which an upload whose content matches a safe record never reaches.
  With a token that allows 20 MiB, an upload named \<open>cat.png\<close> of 10485761 bytes, one byte
  over the limit of the image category and so over the tighter of the two limits, is
  answered with the existing record of the same content instead of being rejected.
\<close>

theorem duplicate_over_category_limit_counterexample:
  "upload_category (png_upload oversize_content) = Cat_image
   \<and> max_file_size large_token = Some (20 * 1024 * 1024)
   \<and> getMaxSize Cat_image = 10 * 1024 * 1024
   \<and> effective_max large_token Cat_image = 10 * 1024 * 1024
   \<and> int (length (mp_file (png_upload oversize_content))) = 10 * 1024 * 1024 + 1
   \<and> findByHash (files world_with_video) (sha256 sample_env oversize_content) = Some safe_video
   \<and> fst (handleUpload sample_env (sample_request ''cat.png'' oversize_content ''u1'' ''r1'' 2000)
             (png_upload oversize_content) large_token world_with_video) = Inr safe_video"
proof -
  let ?rq = "sample_request ''cat.png'' oversize_content ''u1'' ''r1'' 2000"
  let ?f = "png_upload oversize_content"
  let ?tmp = "\<lparr>storedFilename = ''u1.png'', storagePath = ''raw/image/u1.png'',
               fileHash = sha256 sample_env oversize_content,
               fileSize = int (length oversize_content)\<rparr>"
  have len: "int (length oversize_content) = 10485761"
    by (simp add: oversize_content_def)
  have lim: "max_file_size large_token = Some (20 * 1024 * 1024)"
    "getMaxSize Cat_image = 10 * 1024 * 1024"
    "effective_max large_token Cat_image = 10 * 1024 * 1024"
    "upload_maxSize large_token Cat_image = 20971520"
    by code_simp+
  have abs: "isAbsolute (cwd sample_env)" by code_simp
  have perm: "category_permitted large_token (upload_category ?f)"
    unfolding upload_category_png by code_simp
  have rq: "save_fails (failing ?rq) = False" "\<not> findByHash_fails (failing ?rq)"
    "stored_uuid ?rq = ''u1''"
    by (simp_all add: sample_request_def no_faults_def)
  have f: "mp_file ?f = oversize_content" "mp_filename ?f = ''cat.png''"
    by (simp_all add: png_upload_def)
  have w: "storage world_with_video = Map.empty" "files world_with_video = [safe_video]"
    by (simp_all add: world_with_video_def sample_world_def)
  have "fst (saveStream sample_env False ''u1'' [] ''cat.png'' Cat_image Map.empty)
          = Inr \<lparr>storedFilename = ''u1.png'', storagePath = ''raw/image/u1.png'',
                  fileHash = sha256 sample_env [], fileSize = int (length ([] :: string))\<rparr>"
    by code_simp
  from saveStream_content [OF this, of oversize_content]
  have save: "fst (saveStream sample_env (save_fails (failing ?rq)) (stored_uuid ?rq) (mp_file ?f)
                     (mp_filename ?f) (upload_category ?f) (storage world_with_video)) = Inr ?tmp"
    by (simp add: rq f w upload_category_png)
  have size: "int (length (mp_file ?f)) \<le> upload_maxSize large_token (upload_category ?f)"
    by (simp add: f len lim upload_category_png)
  have dup: "findByHash (files world_with_video) (fileHash ?tmp) = Some safe_video"
    by (simp add: w findByHash_def safe_video_def sample_env_def)
  from handleUpload_duplicate_size [OF abs perm save size rq(2) dup] len lim f dup
  show ?thesis by (simp add: upload_category_png)
qed

text \<open>
  C7, amended. The two size checks of the pipeline, the one of \<open>handleUpload\<close> against
  \<open>token.max_file_size || getMaxSize(category)\<close> and the one of \<open>validateFileSize\<close>
  against the category, pass together exactly when the size is at most the tighter of
  the token's limit and the category's: a file of exactly that size passes both, a file
  one byte over fails one of them. The tighter limit is never above the category's. In
  the pipeline, an upload whose content matches no safe record is held to that limit: when
  it creates a record it is within the limit, and when it is over the limit it is rejected
  with \<open>FILE_TOO_LARGE\<close> or with a validation failure that lists the size. An upload whose
  content matches a safe record passes the first check alone: it is answered with the
  existing record when its size is at most the limit of the token (that of the category
  when the token has none), and rejected with \<open>FILE_TOO_LARGE\<close> otherwise.
\<close>

theorem size_limits_of_new_and_duplicate_uploads:
  "effective_max tk cat \<le> getMaxSize cat
   \<and> (d p = Some content \<longrightarrow>
        ((\<not> int (length content) > upload_maxSize tk cat \<and> validateFileSize d p cat = None)
           \<longleftrightarrow> int (length content) \<le> effective_max tk cat)
        \<and> (int (length content) = effective_max tk cat \<longrightarrow>
              \<not> int (length content) > upload_maxSize tk cat \<and> validateFileSize d p cat = None)
        \<and> (int (length content) = effective_max tk cat + 1 \<longrightarrow>
              int (length content) > upload_maxSize tk cat
              \<or> validateFileSize d p cat
                   = Some (Size_exceeded (int (length content)) (getMaxSize cat) cat)))
   \<and> (isAbsolute (cwd e) \<and> fst (handleUpload e rq f tk w) = Inr fm
        \<and> findByHash (files w) (sha256 e (mp_file f)) = None \<longrightarrow>
        int (length (mp_file f)) \<le> effective_max tk (upload_category f)
        \<and> int (length (mp_file f)) \<le> getMaxSize (upload_category f)
        \<and> file_size fm = int (length (mp_file f)))
   \<and> (isAbsolute (cwd e) \<and> category_permitted tk (upload_category f)
        \<and> fst (saveStream e (save_fails (failing rq)) (stored_uuid rq) (mp_file f)
                  (mp_filename f) (upload_category f) (storage w)) = Inr tmp
        \<and> int (length (mp_file f)) > effective_max tk (upload_category f)
        \<and> \<not> findByHash_fails (failing rq)
        \<and> findByHash (files w) (fileHash tmp) = None \<longrightarrow>
        fst (handleUpload e rq f tk w)
           = Inl (CDNError ''FILE_TOO_LARGE'' 400 (Detail ''File size exceeds limit''))
        \<or> (\<exists>es. fst (handleUpload e rq f tk w)
                    = Inl (CDNError ''SECURITY_VALIDATION_FAILED'' 400 (Detail_errors es))
                \<and> Size_exceeded (int (length (mp_file f))) (getMaxSize (upload_category f))
                     (upload_category f) \<in> set es))
   \<and> (isAbsolute (cwd e) \<and> category_permitted tk (upload_category f)
        \<and> fst (saveStream e (save_fails (failing rq)) (stored_uuid rq) (mp_file f)
                  (mp_filename f) (upload_category f) (storage w)) = Inr tmp
        \<and> \<not> findByHash_fails (failing rq)
        \<and> findByHash (files w) (fileHash tmp) = Some existing \<longrightarrow>
        (if int (length (mp_file f)) \<le> upload_maxSize tk (upload_category f)
         then fst (handleUpload e rq f tk w) = Inr existing
         else fst (handleUpload e rq f tk w)
                = Inl (CDNError ''FILE_TOO_LARGE'' 400 (Detail ''File size exceeds limit''))))"
proof (intro conjI impI)
  show "effective_max tk cat \<le> getMaxSize cat"
    by (simp add: effective_max_def split: option.splits)
next
  assume dp: "d p = Some content"
  show "(\<not> int (length content) > upload_maxSize tk cat \<and> validateFileSize d p cat = None)
           \<longleftrightarrow> int (length content) \<le> effective_max tk cat"
    using dp by (rule size_checks_iff [of d p content tk cat])
  { assume "int (length content) = effective_max tk cat"
    then show "\<not> int (length content) > upload_maxSize tk cat"
      and "validateFileSize d p cat = None"
      using size_checks_iff [of d p content tk cat] dp by simp_all }
  { assume "int (length content) = effective_max tk cat + 1"
    then have "\<not> (\<not> int (length content) > upload_maxSize tk cat \<and> validateFileSize d p cat = None)"
      using size_checks_iff [of d p content tk cat] dp by simp
    then show "int (length content) > upload_maxSize tk cat
              \<or> validateFileSize d p cat
                   = Some (Size_exceeded (int (length content)) (getMaxSize cat) cat)"
      using validateFileSize_reason [of d p content cat] dp
      by (cases "validateFileSize d p cat") auto }
next
  assume a: "isAbsolute (cwd e) \<and> fst (handleUpload e rq f tk w) = Inr fm
        \<and> findByHash (files w) (sha256 e (mp_file f)) = None"
  then have c: "\<not> int (length (mp_file f)) > upload_maxSize tk (upload_category f)"
    "int (length (mp_file f)) \<le> getMaxSize (upload_category f)"
    "file_size fm = int (length (mp_file f))"
    using handleUpload_created [of e rq f tk w fm] by auto
  then show "int (length (mp_file f)) \<le> effective_max tk (upload_category f)"
    by (auto simp: effective_max_def upload_maxSize_def truthy_int_def split: option.splits if_splits)
  from c show "int (length (mp_file f)) \<le> getMaxSize (upload_category f)"
    and "file_size fm = int (length (mp_file f))" by simp_all
next
  assume "isAbsolute (cwd e) \<and> category_permitted tk (upload_category f)
        \<and> fst (saveStream e (save_fails (failing rq)) (stored_uuid rq) (mp_file f)
                  (mp_filename f) (upload_category f) (storage w)) = Inr tmp
        \<and> int (length (mp_file f)) > effective_max tk (upload_category f)
        \<and> \<not> findByHash_fails (failing rq)
        \<and> findByHash (files w) (fileHash tmp) = None"
  then show "fst (handleUpload e rq f tk w)
           = Inl (CDNError ''FILE_TOO_LARGE'' 400 (Detail ''File size exceeds limit''))
        \<or> (\<exists>es. fst (handleUpload e rq f tk w)
                    = Inl (CDNError ''SECURITY_VALIDATION_FAILED'' 400 (Detail_errors es))
                \<and> Size_exceeded (int (length (mp_file f))) (getMaxSize (upload_category f))
                     (upload_category f) \<in> set es)"
    using handleUpload_oversize [of e tk f rq w tmp] by blast
next
  assume a: "isAbsolute (cwd e) \<and> category_permitted tk (upload_category f)
        \<and> fst (saveStream e (save_fails (failing rq)) (stored_uuid rq) (mp_file f)
                  (mp_filename f) (upload_category f) (storage w)) = Inr tmp
        \<and> \<not> findByHash_fails (failing rq)
        \<and> findByHash (files w) (fileHash tmp) = Some existing"
  show "if int (length (mp_file f)) \<le> upload_maxSize tk (upload_category f)
         then fst (handleUpload e rq f tk w) = Inr existing
         else fst (handleUpload e rq f tk w)
                = Inl (CDNError ''FILE_TOO_LARGE'' 400 (Detail ''File size exceeds limit''))"
  proof (cases "int (length (mp_file f)) \<le> upload_maxSize tk (upload_category f)")
    case True
    with a handleUpload_duplicate_size [of e tk f rq w tmp existing] show ?thesis by simp
  next
    case False
    with a handleUpload_too_large [of tk f e rq w tmp] show ?thesis by simp
  qed
qed

theorem size_limits_of_new_and_duplicate_uploads_witness:
  "[''/srv/uploads/raw/image/u1.png'' \<mapsto> ''PNG12''] ''/srv/uploads/raw/image/u1.png'' = Some ''PNG12''
   \<and> int (length ''PNG12'') = effective_max small_token Cat_image
   \<and> \<not> int (length ''PNG12'') > upload_maxSize small_token Cat_image
   \<and> validateFileSize [''/srv/uploads/raw/image/u1.png'' \<mapsto> ''PNG12'']
         ''/srv/uploads/raw/image/u1.png'' Cat_image = None
   \<and> isAbsolute (cwd sample_env)
   \<and> findByHash (files sample_world) (sha256 sample_env ''PNG12'') = None
   \<and> fst (handleUpload sample_env (sample_request ''cat.png'' ''PNG12'' ''u1'' ''r1'' 2000)
             (png_upload ''PNG12'') small_token sample_world) = Inr (stored_png ''PNG12'')
   \<and> int (length ''PNG123'') = effective_max small_token Cat_image + 1
   \<and> fst (handleUpload sample_env (sample_request ''cat.png'' ''PNG123'' ''u1'' ''r1'' 2000)
             (png_upload ''PNG123'') small_token sample_world)
       = Inl (CDNError ''FILE_TOO_LARGE'' 400 (Detail ''File size exceeds limit''))
   \<and> category_permitted sample_token (upload_category (png_upload ''PNG12''))
   \<and> fst (saveStream sample_env False ''u2'' ''PNG12'' ''cat.png'' Cat_image (storage world_with_png))
       = Inr saved_copy
   \<and> findByHash (files world_with_png) (fileHash saved_copy) = Some safe_png
   \<and> int (length ''PNG12'') \<le> upload_maxSize sample_token Cat_image
   \<and> fst (handleUpload sample_env (sample_request ''cat.png'' ''PNG12'' ''u2'' ''r2'' 3000)
             (png_upload ''PNG12'') sample_token world_with_png) = Inr safe_png"
proof -
  let ?d = "[''/srv/uploads/raw/image/u1.png'' \<mapsto> ''PNG12'']"
  let ?rq5 = "sample_request ''cat.png'' ''PNG12'' ''u1'' ''r1'' 2000"
  let ?rq6 = "sample_request ''cat.png'' ''PNG123'' ''u1'' ''r1'' 2000"
  let ?rq2 = "sample_request ''cat.png'' ''PNG12'' ''u2'' ''r2'' 3000"
  have a: "?d ''/srv/uploads/raw/image/u1.png'' = Some ''PNG12''" by simp
  have b: "int (length ''PNG12'') = effective_max small_token Cat_image"
    "int (length ''PNG123'') = effective_max small_token Cat_image + 1"
    "isAbsolute (cwd sample_env)"
    "findByHash (files sample_world) (sha256 sample_env ''PNG12'') = None"
    "mp_file (png_upload ''PNG12'') = ''PNG12''"
    by code_simp+
  have c: "fst (handleUpload sample_env ?rq5 (png_upload ''PNG12'') small_token sample_world)
             = Inr (stored_png ''PNG12'')"
    by code_simp
  have d: "fst (handleUpload sample_env ?rq6 (png_upload ''PNG123'') small_token sample_world)
             = Inl (CDNError ''FILE_TOO_LARGE'' 400 (Detail ''File size exceeds limit''))"
    by code_simp
  have h: "category_permitted sample_token (upload_category (png_upload ''PNG12''))"
    "fst (saveStream sample_env False ''u2'' ''PNG12'' ''cat.png'' Cat_image (storage world_with_png))
       = Inr saved_copy"
    "findByHash (files world_with_png) (fileHash saved_copy) = Some safe_png"
    "int (length ''PNG12'') \<le> upload_maxSize sample_token Cat_image"
    by code_simp+
  have v: "upload_category (png_upload ''PNG12'') = Cat_image"
    "save_fails (failing ?rq2) = False" "findByHash_fails (failing ?rq2) = False"
    "stored_uuid ?rq2 = ''u2''" "mp_filename (png_upload ''PNG12'') = ''cat.png''"
    by code_simp+
  note new = size_limits_of_new_and_duplicate_uploads
         [of small_token Cat_image ?d "''/srv/uploads/raw/image/u1.png''" "''PNG12''" sample_env
             ?rq5 "png_upload ''PNG12''" sample_world "stored_png ''PNG12''"]
  note dup = size_limits_of_new_and_duplicate_uploads
         [of sample_token Cat_image ?d "''/srv/uploads/raw/image/u1.png''" "''PNG12''" sample_env
             ?rq2 "png_upload ''PNG12''" world_with_png _ saved_copy safe_png]
  from dup b h v
  have e: "fst (handleUpload sample_env ?rq2 (png_upload ''PNG12'') sample_token world_with_png)
             = Inr safe_png"
    by simp
  from new a b c d h e
  show ?thesis by simp
qed

section \<open>The upload pipeline: token consumption\<close>

lemma logUsage_tokens: "upload_tokens (logUsage entry db) = upload_tokens db"
  by (simp add: logUsage_def)

lemma validateToken_cong:
  "upload_tokens db = upload_tokens db' \<Longrightarrow> validateToken t db s = validateToken t db' s"
  by (simp add: validateToken_def findByToken_def)

lemma upload_catch_result:
  "(\<exists>err'. fst (upload_catch rq tk err w) = Inl err')
   \<and> upload_tokens (tokens (snd (upload_catch rq tk err w))) = upload_tokens (tokens w)
   \<and> files (snd (upload_catch rq tk err w)) = files w
   \<and> storage (snd (upload_catch rq tk err w)) = storage w"
  by (auto simp: upload_catch_def logFailedUsage_def logUsage_tokens split: prod.splits option.splits)

lemma markTokenAsUsed_cases:
  "(\<exists>err. fst (markTokenAsUsed rq i fid db) = Some err)
   \<or> (fst (markTokenAsUsed rq i fid db) = None
       \<and> \<not> markAsUsed_fails (failing rq) \<and> \<not> logUsage_fails (failing rq))"
  by (auto simp: markTokenAsUsed_def Let_def)

lemma markTokenAsUsed_tokens:
  "upload_tokens (snd (markTokenAsUsed rq i fid db)) =
     (if markAsUsed_fails (failing rq) then upload_tokens db
      else upload_tokens (markAsUsed (now rq) i db))"
  by (auto simp: markTokenAsUsed_def Let_def logUsage_tokens)

lemma uploadFile_after_failure:
  assumes "multipart rq = Some f" and "fst (handleUpload e rq f tk w) = Inl err"
  shows "(\<exists>err'. fst (uploadFile e rq (Some tk) w) = Inl err')
         \<and> upload_tokens (tokens (snd (uploadFile e rq (Some tk) w))) = upload_tokens (tokens w)"
proof -
  obtain w1 where h: "handleUpload e rq f tk w = (Inl err, w1)"
    using assms(2) by (metis prod.collapse)
  have "tokens w1 = tokens w" using handleUpload_tokens [of e rq f tk w] h by simp
  then show ?thesis
    using assms(1) h upload_catch_result [of rq tk err w1] by (simp add: uploadFile_def)
qed

lemma upload_try_record_exists:
  assumes "upload_try e rq f tk cat tmp w = (Inr fm, w')"
  shows "file_id fm \<in> file_id ` set (files w')"
proof (cases "findByHash (files w) (fileHash tmp)")
  case None
  from assms obtain p where "getFilePath e (storedFilename tmp) cat = Inr p"
    using None
    by (auto simp: upload_try_def Let_def split: if_splits sum.splits)
  from upload_try_created [OF this assms None]
  have "map file_id (files w') = map file_id (files w) @ [file_id fm]" by simp
  then have "file_id fm \<in> set (map file_id (files w'))" by simp
  then show ?thesis by simp
next
  case (Some existing)
  from upload_try_Inr_dedup [OF assms Some] findByHash_Some [OF Some]
  show ?thesis by auto
qed

lemma handleUpload_record_exists:
  assumes "fst (handleUpload e rq f tk w) = Inr fm"
  shows "file_id fm \<in> file_id ` set (files (snd (handleUpload e rq f tk w)))"
proof -
  from handleUpload_Inr_saved [OF assms] obtain tmp d1 where
    perm: "category_permitted tk (upload_category f)"
    and save: "saveStream e (save_fails (failing rq)) (stored_uuid rq) (mp_file f) (mp_filename f)
                 (upload_category f) (storage w) = (Inr tmp, d1)"
    by (metis prod.collapse)
  obtain r2 w2 where ut: "upload_try e rq f tk (upload_category f) tmp (w\<lparr>storage := d1\<rparr>) = (r2, w2)"
    by (cases "upload_try e rq f tk (upload_category f) tmp (w\<lparr>storage := d1\<rparr>)")
  from assms handleUpload_after_save [OF perm save] ut
  have "r2 = Inr fm" and "snd (handleUpload e rq f tk w) = w2"
    by (cases r2; simp)+
  with ut upload_try_record_exists [of e rq f tk "upload_category f" tmp "w\<lparr>storage := d1\<rparr>" fm w2]
  show ?thesis by simp
qed

lemma uploadFile_tokens_changed:
  assumes "upload_tokens (tokens (snd (uploadFile e rq tko w))) \<noteq> upload_tokens (tokens w)"
  shows "\<exists>tk f fm. tko = Some tk \<and> multipart rq = Some f
           \<and> fst (handleUpload e rq f tk w) = Inr fm
           \<and> file_id fm \<in> file_id ` set (files (snd (handleUpload e rq f tk w)))
           \<and> files (snd (uploadFile e rq tko w)) = files (snd (handleUpload e rq f tk w))
           \<and> upload_tokens (tokens (snd (uploadFile e rq tko w)))
               = upload_tokens (markAsUsed (now rq) (tok_id tk) (tokens w))"
proof -
  from assms obtain tk where tko: "tko = Some tk"
    by (cases tko) (auto simp: uploadFile_def)
  from assms tko obtain f where f: "multipart rq = Some f"
    by (cases "multipart rq") (auto simp: uploadFile_def)
  obtain res w1 where h: "handleUpload e rq f tk w = (res, w1)"
    by (cases "handleUpload e rq f tk w")
  have t1: "tokens w1 = tokens w" using handleUpload_tokens [of e rq f tk w] h by simp
  show ?thesis
  proof (cases res)
    case (Inl err)
    with h f tko assms uploadFile_after_failure [of rq f e tk w err] show ?thesis by simp
  next
    case (Inr fm)
    obtain r2 db2 where m: "markTokenAsUsed rq (tok_id tk) (Some (file_id fm)) (tokens w1) = (r2, db2)"
      by (cases "markTokenAsUsed rq (tok_id tk) (Some (file_id fm)) (tokens w1)")
    have db2: "upload_tokens db2 =
                (if markAsUsed_fails (failing rq) then upload_tokens (tokens w)
                 else upload_tokens (markAsUsed (now rq) (tok_id tk) (tokens w)))"
      using markTokenAsUsed_tokens [of rq "tok_id tk" "Some (file_id fm)" "tokens w1"] m t1
      by (simp add: markAsUsed_def)
    have fin: "upload_tokens (tokens (snd (uploadFile e rq tko w))) = upload_tokens db2
               \<and> files (snd (uploadFile e rq tko w)) = files w1"
      using tko f h Inr m upload_catch_result [of rq tk _ "w1\<lparr>tokens := db2\<rparr>"]
      by (cases r2) (simp_all add: uploadFile_def)
    with assms db2 have "\<not> markAsUsed_fails (failing rq)" by auto
    with fin db2 tko f h Inr handleUpload_record_exists [of e rq f tk w fm]
    show ?thesis by simp
  qed
qed

text \<open>
  C3. When \<open>handleUpload\<close> throws (category mismatch, size check, validation failure,
  failure of a write to the \<open>files\<close> table or any other step), \<open>uploadFile\<close> throws
  too and leaves every token row as it was, so \<open>validateToken\<close> answers as before the
  upload and a token that was valid can be used for a retry. \<open>handleUpload\<close> itself
  never touches the token tables. And whenever \<open>uploadFile\<close> has changed a token row,
  \<open>handleUpload\<close> had returned a file whose record is in the \<open>files\<close> table, and the
  change is the one \<open>markAsUsed\<close> makes: consumption comes after the record exists.
\<close>

theorem failed_upload_keeps_token:
  "(multipart rq = Some f \<and> (\<exists>err. fst (handleUpload e rq f tk w) = Inl err) \<longrightarrow>
      (\<exists>err'. fst (uploadFile e rq (Some tk) w) = Inl err')
      \<and> upload_tokens (tokens (snd (uploadFile e rq (Some tk) w))) = upload_tokens (tokens w)
      \<and> validateToken t (tokens (snd (uploadFile e rq (Some tk) w))) s
          = validateToken t (tokens w) s)
   \<and> (upload_tokens (tokens (snd (uploadFile e rq tko w))) \<noteq> upload_tokens (tokens w) \<longrightarrow>
        (\<exists>tk' f' fm. tko = Some tk' \<and> multipart rq = Some f'
           \<and> fst (handleUpload e rq f' tk' w) = Inr fm
           \<and> file_id fm \<in> file_id ` set (files (snd (handleUpload e rq f' tk' w)))
           \<and> files (snd (uploadFile e rq tko w)) = files (snd (handleUpload e rq f' tk' w))
           \<and> upload_tokens (tokens (snd (uploadFile e rq tko w)))
               = upload_tokens (markAsUsed (now rq) (tok_id tk') (tokens w))))
   \<and> tokens (snd (handleUpload e rq f tk w)) = tokens w"
proof (intro conjI impI)
  assume a: "multipart rq = Some f \<and> (\<exists>err. fst (handleUpload e rq f tk w) = Inl err)"
  then obtain err where "fst (handleUpload e rq f tk w) = Inl err" by blast
  with a uploadFile_after_failure [of rq f e tk w err]
  show "\<exists>err'. fst (uploadFile e rq (Some tk) w) = Inl err'"
    and k: "upload_tokens (tokens (snd (uploadFile e rq (Some tk) w))) = upload_tokens (tokens w)"
    by simp_all
  from validateToken_cong [OF k]
  show "validateToken t (tokens (snd (uploadFile e rq (Some tk) w))) s
          = validateToken t (tokens w) s" .
next
  assume "upload_tokens (tokens (snd (uploadFile e rq tko w))) \<noteq> upload_tokens (tokens w)"
  then show "\<exists>tk' f' fm. tko = Some tk' \<and> multipart rq = Some f'
           \<and> fst (handleUpload e rq f' tk' w) = Inr fm
           \<and> file_id fm \<in> file_id ` set (files (snd (handleUpload e rq f' tk' w)))
           \<and> files (snd (uploadFile e rq tko w)) = files (snd (handleUpload e rq f' tk' w))
           \<and> upload_tokens (tokens (snd (uploadFile e rq tko w)))
               = upload_tokens (markAsUsed (now rq) (tok_id tk') (tokens w))"
    by (rule uploadFile_tokens_changed)
next
  show "tokens (snd (handleUpload e rq f tk w)) = tokens w" by (rule handleUpload_tokens)
qed

theorem failed_upload_keeps_token_witness:
  "multipart (sample_request ''evil.png'' ''MZ-program'' ''u1'' ''r1'' 2000) = Some malicious_upload
   \<and> fst (handleUpload sample_env (sample_request ''evil.png'' ''MZ-program'' ''u1'' ''r1'' 2000)
             malicious_upload sample_token sample_world)
       = Inl (CDNError ''SECURITY_VALIDATION_FAILED'' 400
                (Detail_errors [Security_failed ''executable header'']))
   \<and> upload_tokens (tokens (snd (uploadFile sample_env
          (sample_request ''evil.png'' ''MZ-program'' ''u1'' ''r1'' 2000) (Some sample_token)
          sample_world))) = [sample_token]
   \<and> tv_valid (validateToken 2000 (tokens (snd (uploadFile sample_env
          (sample_request ''evil.png'' ''MZ-program'' ''u1'' ''r1'' 2000) (Some sample_token)
          sample_world))) ''abcd'')
   \<and> upload_tokens (tokens (snd (uploadFile sample_env
          (sample_request ''cat.png'' ''PNG12'' ''u1'' ''r1'' 2000) (Some sample_token)
          sample_world)))
       = [sample_token\<lparr>is_used := True, used_at := Some 2000, current_uses := 1\<rparr>]
   \<and> fst (handleUpload sample_env (sample_request ''cat.png'' ''PNG12'' ''u1'' ''r1'' 2000)
             (png_upload ''PNG12'') sample_token sample_world) = Inr (stored_png ''PNG12'')
   \<and> map file_id (files (snd (uploadFile sample_env
          (sample_request ''cat.png'' ''PNG12'' ''u1'' ''r1'' 2000) (Some sample_token)
          sample_world))) = [''r1'']"
proof -
  let ?bad = "sample_request ''evil.png'' ''MZ-program'' ''u1'' ''r1'' 2000"
  let ?good = "sample_request ''cat.png'' ''PNG12'' ''u1'' ''r1'' 2000"
  have a: "multipart ?bad = Some malicious_upload" by code_simp
  have b: "fst (handleUpload sample_env ?bad malicious_upload sample_token sample_world)
       = Inl (CDNError ''SECURITY_VALIDATION_FAILED'' 400
                (Detail_errors [Security_failed ''executable header'']))"
    by code_simp
  have c: "upload_tokens (tokens sample_world) = [sample_token]"
    "tv_valid (validateToken 2000 (tokens sample_world) ''abcd'')"
    by code_simp+
  have d: "upload_tokens (tokens (snd (uploadFile sample_env ?good (Some sample_token) sample_world)))
       = [sample_token\<lparr>is_used := True, used_at := Some 2000, current_uses := 1\<rparr>]"
    by code_simp
  have e: "fst (handleUpload sample_env ?good (png_upload ''PNG12'') sample_token sample_world)
             = Inr (stored_png ''PNG12'')"
    "map file_id (files (snd (uploadFile sample_env ?good (Some sample_token) sample_world))) = [''r1'']"
    by code_simp+
  from failed_upload_keeps_token
         [of ?bad malicious_upload sample_env sample_token sample_world 2000 "''abcd''"
             "Some sample_token"]
       a b c d e
  show ?thesis by simp
qed

section \<open>The upload pipeline: duplicates\<close>

lemma findByHash_None_iff:
  "findByHash rows h = None \<longleftrightarrow>
     (\<forall>r \<in> set rows. \<not> (hash_sha256 r = h \<and> is_validated r \<and> validation_status r = Safe))"
  by (auto simp: findByHash_def find_None_iff)

lemma markAsUsed_counts:
  "map current_uses (upload_tokens (markAsUsed t i db)) =
     map (\<lambda>r. if tok_id r = i then current_uses r + 1 else current_uses r) (upload_tokens db)"
  by (simp add: markAsUsed_def)

lemma uploadFile_success:
  assumes "multipart rq = Some f" and "handleUpload e rq f tk w = (Inr fm, w1)"
    and "\<not> markAsUsed_fails (failing rq)" and "\<not> logUsage_fails (failing rq)"
  shows "(\<exists>resp. fst (uploadFile e rq (Some tk) w) = Inr resp \<and> resp_id resp = file_id fm)
         \<and> files (snd (uploadFile e rq (Some tk) w)) = files w1
         \<and> storage (snd (uploadFile e rq (Some tk) w)) = storage w1
         \<and> upload_tokens (tokens (snd (uploadFile e rq (Some tk) w)))
             = upload_tokens (markAsUsed (now rq) (tok_id tk) (tokens w))"
proof -
  have "tokens w1 = tokens w" using handleUpload_tokens [of e rq f tk w] assms(2) by simp
  then show ?thesis
    using assms by (simp add: uploadFile_def markTokenAsUsed_def Let_def logUsage_tokens markAsUsed_def)
qed

text \<open>
  C4. \<open>findByHash\<close> returns only a validated row of the table whose status is \<open>safe\<close>,
  and none when every row with the hash has another status. When an upload has passed
  the category and size checks, its file is written and its hash is the one of such a
  row, \<open>handleUpload\<close> returns that row, leaves the \<open>files\<close> table as it was and,
  when the \<open>unlink\<close> of \<open>deleteFile\<close> does not throw, leaves no file at the path just
  written (when it throws, the error is swallowed and the duplicate stays on disk, the
  answer being the same); \<open>uploadFile\<close> then answers with the id of the existing record
  and consumes the token as for any upload: one \<open>markAsUsed\<close>, which adds one to the use
  count of the token.
\<close>

theorem duplicate_upload_returns_existing_record:
  "(\<forall>r. findByHash rows h = Some r \<longrightarrow>
       r \<in> set rows \<and> hash_sha256 r = h \<and> is_validated r \<and> validation_status r = Safe)
   \<and> ((\<forall>r \<in> set rows. hash_sha256 r = h \<longrightarrow> validation_status r \<noteq> Safe) \<longrightarrow>
        findByHash rows h = None)
   \<and> (isAbsolute (cwd e) \<and> category_permitted tk (upload_category f)
        \<and> fst (saveStream e (save_fails (failing rq)) (stored_uuid rq) (mp_file f)
                  (mp_filename f) (upload_category f) (storage w)) = Inr tmp
        \<and> \<not> fileSize tmp > upload_maxSize tk (upload_category f)
        \<and> \<not> findByHash_fails (failing rq)
        \<and> findByHash (files w) (fileHash tmp) = Some existing \<longrightarrow>
        fst (handleUpload e rq f tk w) = Inr existing
        \<and> files (snd (handleUpload e rq f tk w)) = files w
        \<and> (\<not> unlink_fails (failing rq) \<longrightarrow>
             storage (snd (handleUpload e rq f tk w))
               (raw_path e (upload_category f) (storedFilename tmp)) = None)
        \<and> (multipart rq = Some f \<and> \<not> markAsUsed_fails (failing rq)
              \<and> \<not> logUsage_fails (failing rq) \<longrightarrow>
             (\<exists>resp. fst (uploadFile e rq (Some tk) w) = Inr resp
                     \<and> resp_id resp = file_id existing)
             \<and> files (snd (uploadFile e rq (Some tk) w)) = files w
             \<and> (\<not> unlink_fails (failing rq) \<longrightarrow>
                  storage (snd (uploadFile e rq (Some tk) w))
                    (raw_path e (upload_category f) (storedFilename tmp)) = None)
             \<and> upload_tokens (tokens (snd (uploadFile e rq (Some tk) w)))
                 = upload_tokens (markAsUsed (now rq) (tok_id tk) (tokens w))
             \<and> map current_uses (upload_tokens (tokens (snd (uploadFile e rq (Some tk) w))))
                 = map (\<lambda>r. if tok_id r = tok_id tk then current_uses r + 1 else current_uses r)
                       (upload_tokens (tokens w))))"
proof (intro conjI impI allI)
  fix r assume "findByHash rows h = Some r"
  from findByHash_Some [OF this]
  show "r \<in> set rows" "hash_sha256 r = h" "is_validated r" "validation_status r = Safe"
    by simp_all
next
  assume "\<forall>r \<in> set rows. hash_sha256 r = h \<longrightarrow> validation_status r \<noteq> Safe"
  then show "findByHash rows h = None" by (auto simp: findByHash_None_iff)
next
  assume a: "isAbsolute (cwd e) \<and> category_permitted tk (upload_category f)
        \<and> fst (saveStream e (save_fails (failing rq)) (stored_uuid rq) (mp_file f)
                  (mp_filename f) (upload_category f) (storage w)) = Inr tmp
        \<and> \<not> fileSize tmp > upload_maxSize tk (upload_category f)
        \<and> \<not> findByHash_fails (failing rq)
        \<and> findByHash (files w) (fileHash tmp) = Some existing"
  then have h: "handleUpload e rq f tk w =
           (Inr existing,
            w\<lparr>storage :=
                 (if unlink_fails (failing rq)
                  then (storage w)(raw_path e (upload_category f) (storedFilename tmp) \<mapsto> mp_file f)
                  else (storage w)(raw_path e (upload_category f) (storedFilename tmp) := None))\<rparr>)"
    using handleUpload_dedup [of e tk f rq w tmp existing] by blast
  then show "fst (handleUpload e rq f tk w) = Inr existing"
    and "files (snd (handleUpload e rq f tk w)) = files w"
    by simp_all
  { assume "\<not> unlink_fails (failing rq)"
    with h show "storage (snd (handleUpload e rq f tk w))
                   (raw_path e (upload_category f) (storedFilename tmp)) = None"
      by simp }
  assume b: "multipart rq = Some f \<and> \<not> markAsUsed_fails (failing rq)
              \<and> \<not> logUsage_fails (failing rq)"
  from uploadFile_success [of rq f e tk w existing, OF _ h] b
  have u: "storage (snd (uploadFile e rq (Some tk) w)) =
             (if unlink_fails (failing rq)
              then (storage w)(raw_path e (upload_category f) (storedFilename tmp) \<mapsto> mp_file f)
              else (storage w)(raw_path e (upload_category f) (storedFilename tmp) := None))"
    by simp
  { assume "\<not> unlink_fails (failing rq)"
    with u show "storage (snd (uploadFile e rq (Some tk) w))
                   (raw_path e (upload_category f) (storedFilename tmp)) = None"
      by simp }
  from uploadFile_success [of rq f e tk w existing, OF _ h] b
  show "\<exists>resp. fst (uploadFile e rq (Some tk) w) = Inr resp \<and> resp_id resp = file_id existing"
    and "files (snd (uploadFile e rq (Some tk) w)) = files w"
    and t: "upload_tokens (tokens (snd (uploadFile e rq (Some tk) w)))
                 = upload_tokens (markAsUsed (now rq) (tok_id tk) (tokens w))"
    by simp_all
  show "map current_uses (upload_tokens (tokens (snd (uploadFile e rq (Some tk) w))))
                 = map (\<lambda>r. if tok_id r = tok_id tk then current_uses r + 1 else current_uses r)
                       (upload_tokens (tokens w))"
    by (simp only: t markAsUsed_counts)
qed

theorem duplicate_upload_returns_existing_record_witness:
  "isAbsolute (cwd sample_env)
   \<and> category_permitted sample_token (upload_category (png_upload ''PNG12''))
   \<and> fst (saveStream sample_env False ''u2'' ''PNG12'' ''cat.png'' Cat_image (storage world_with_png))
       = Inr saved_copy
   \<and> \<not> fileSize saved_copy > upload_maxSize sample_token Cat_image
   \<and> findByHash (files world_with_png) (fileHash saved_copy) = Some safe_png
   \<and> multipart (sample_request ''cat.png'' ''PNG12'' ''u2'' ''r2'' 3000) = Some (png_upload ''PNG12'')
   \<and> \<not> unlink_fails (failing (sample_request ''cat.png'' ''PNG12'' ''u2'' ''r2'' 3000))
   \<and> fst (handleUpload sample_env (sample_request ''cat.png'' ''PNG12'' ''u2'' ''r2'' 3000)
             (png_upload ''PNG12'') sample_token world_with_png) = Inr safe_png
   \<and> files (snd (handleUpload sample_env (sample_request ''cat.png'' ''PNG12'' ''u2'' ''r2'' 3000)
             (png_upload ''PNG12'') sample_token world_with_png)) = [safe_png]
   \<and> storage (snd (uploadFile sample_env (sample_request ''cat.png'' ''PNG12'' ''u2'' ''r2'' 3000)
             (Some sample_token) world_with_png)) ''/srv/uploads/raw/image/u2.png'' = None
   \<and> files (snd (uploadFile sample_env (sample_request ''cat.png'' ''PNG12'' ''u2'' ''r2'' 3000)
             (Some sample_token) world_with_png)) = [safe_png]
   \<and> map current_uses (upload_tokens (tokens (snd (uploadFile sample_env
             (sample_request ''cat.png'' ''PNG12'' ''u2'' ''r2'' 3000) (Some sample_token)
             world_with_png)))) = [1]"
proof -
  let ?rq = "sample_request ''cat.png'' ''PNG12'' ''u2'' ''r2'' 3000"
  have h: "isAbsolute (cwd sample_env)"
    "category_permitted sample_token (upload_category (png_upload ''PNG12''))"
    "fst (saveStream sample_env False ''u2'' ''PNG12'' ''cat.png'' Cat_image (storage world_with_png))
       = Inr saved_copy"
    "\<not> fileSize saved_copy > upload_maxSize sample_token Cat_image"
    "findByHash (files world_with_png) (fileHash saved_copy) = Some safe_png"
    "multipart ?rq = Some (png_upload ''PNG12'')"
    by code_simp+
  have v: "upload_category (png_upload ''PNG12'') = Cat_image"
    "save_fails (failing ?rq) = False" "findByHash_fails (failing ?rq) = False"
    "markAsUsed_fails (failing ?rq) = False" "logUsage_fails (failing ?rq) = False"
    "unlink_fails (failing ?rq) = False"
    "stored_uuid ?rq = ''u2''" "mp_file (png_upload ''PNG12'') = ''PNG12''"
    "mp_filename (png_upload ''PNG12'') = ''cat.png''"
    "raw_path sample_env Cat_image (storedFilename saved_copy) = ''/srv/uploads/raw/image/u2.png''"
    "files world_with_png = [safe_png]"
    "map (\<lambda>r. if tok_id r = tok_id sample_token then current_uses r + 1 else current_uses r)
         (upload_tokens (tokens world_with_png)) = [1]"
    by code_simp+
  from duplicate_upload_returns_existing_record
         [of "files world_with_png" "fileHash saved_copy" sample_env sample_token
             "png_upload ''PNG12''" ?rq world_with_png saved_copy safe_png]
       h v
  show ?thesis by (simp add: markAsUsed_counts)
qed

section \<open>Image transforms: cache key and cache hit\<close>

text \<open>
  The cache key is the name of the stored file without its extension, then \<open>_w\<close> and the
  width when one is given (and not zero), \<open>_h\<close> and the height likewise, \<open>_q\<close> and the
  quality as requested (80 when none is given), a dot and the format (\<open>webp\<close> when none
  is given).
\<close>

lemma buildCacheKey_parts:
  "buildCacheKey filename' options =
     path_parse_name filename'
     @ (case width options of None \<Rightarrow> [] | Some w \<Rightarrow> if w = 0 then [] else ''_w'' @ show_int w)
     @ (case height options of None \<Rightarrow> [] | Some h \<Rightarrow> if h = 0 then [] else ''_h'' @ show_int h)
     @ ''_q'' @ show_int (case quality options of None \<Rightarrow> 80 | Some q \<Rightarrow> q)
     @ ''.'' @ format_name (case format options of None \<Rightarrow> Webp | Some f \<Rightarrow> f)"
  by (simp add: buildCacheKey_def Let_def truthy_int_def split: option.splits)

text \<open>
  When the requested quality lies between 1 and 100, as the schema of the download route
  demands, or is absent, the clamp changes nothing and the key is the one that carries
  the clamped quality.
\<close>

lemma buildCacheKey_in_range:
  assumes "case quality options of None \<Rightarrow> True | Some q \<Rightarrow> 1 \<le> q \<and> q \<le> 100"
  shows "buildCacheKey filename' options = spec_cache_key filename' options"
  using assms by (auto simp: buildCacheKey_def spec_cache_key_def Let_def split: option.splits)

text \<open>
  After a call of \<open>processImage\<close> that returned a buffer, a second call with the same
  file and options returns the same buffer from the cache: it leaves the disk as it is and
  does not run the transformer, whatever the transformer would do.
\<close>

lemma processImage_second_call:
  assumes "fst (processImage e sharp fails1 stored options d) = Inr buf"
  shows "processImage e sharp2 fails2 stored options (fst (snd (processImage e sharp fails1 stored options d)))
           = (Inr buf, fst (snd (processImage e sharp fails1 stored options d)), False)"
proof -
  define cachePath where
    "cachePath = path_join [baseDir e, ''cache'', ''image'', buildCacheKey stored options]"
  show ?thesis
  proof (cases "d cachePath")
    case (Some cached)
    then have "processImage e s f stored options d = (Inr cached, d, False)" for s f
      by (simp add: processImage_def Let_def cachePath_def)
    with assms show ?thesis by simp
  next
    case None
    with assms have first: "processImage e sharp fails1 stored options d
                      = (Inr buf, d(cachePath \<mapsto> buf), True)"
      by (auto simp: processImage_def Let_def cachePath_def [symmetric] split: if_splits sum.splits)
    have "processImage e sharp2 fails2 stored options (d(cachePath \<mapsto> buf))
            = (Inr buf, d(cachePath \<mapsto> buf), False)"
      by (simp add: processImage_def Let_def cachePath_def)
    with first show ?thesis by simp
  qed
qed


section \<open>Concurrent uploads with one token\<close>

text \<open>
  C1. The check and the increment are two statements, a \<open>SELECT\<close> in \<open>validateToken\<close>
  and an unconditional \<open>UPDATE\<close> in \<open>markAsUsed\<close>, with the whole upload between them.
  When two requests present the same single-use token and both pass \<open>authMiddleware\<close>
  before either reaches \<open>markAsUsed\<close>, both uploads succeed: two file records are
  created and the token with \<open>max_uses = 1\<close> ends with \<open>current_uses = 2\<close>.
\<close>

theorem single_use_token_consumed_twice:
  "max_uses sample_token = 1
   \<and> x_upload_token first_request = Some (token sample_token)
   \<and> x_upload_token second_request = Some (token sample_token)
   \<and> outcome (run_schedule sample_env [first_request, second_request] [0, 1, 0, 1] sample_world)
       = ([True, True], [2], [''r1'', ''r2''])"
  by code_simp

text \<open>One after the other, the same two requests give one success and one rejection.\<close>

lemma single_use_token_in_sequence:
  "outcome (run_schedule sample_env [first_request, second_request] [0, 0, 1, 1] sample_world)
     = ([True, False], [1], [''r1''])"
  by code_simp

end
